theory Spec2Isabelle
  imports Complex_Main
begin

section \<open>Data model\<close>

text \<open>
  The Python sources compute with \<open>float\<close>. Amounts, balances and rates are modelled
  here as exact real numbers (every decimal literal of the source is the rational it
  denotes, \<open>0.7\<close> is \<open>7/10\<close>), so the theorems below are about the arithmetic the
  program writes down, not about IEEE rounding. Month counts and the horizon
  \<open>max_months\<close> are natural numbers.
\<close>

datatype DebtType =
  CREDIT_CARD | PERSONAL_LOAN | STUDENT_LOAN | AUTO_LOAN | MORTGAGE | MEDICAL | OTHER

record Debt =
  name :: string
  debt_type :: DebtType
  current_balance :: real
  annual_interest_rate :: real
  minimum_payment :: real
  due_day :: int

definition monthly_interest_rate :: "Debt \<Rightarrow> real" where
  "monthly_interest_rate d = annual_interest_rate d / 12"

definition interest_this_month :: "Debt \<Rightarrow> real" where
  "interest_this_month d = current_balance d * monthly_interest_rate d"

text \<open>\<open>DebtPortfolio\<close> has the single field \<open>debts\<close>, a list in insertion order.\<close>

record DebtPortfolio =
  debts :: "Debt list"

definition total_balance :: "DebtPortfolio \<Rightarrow> real" where
  "total_balance p = sum_list (map current_balance (debts p))"

definition total_minimum_payments :: "DebtPortfolio \<Rightarrow> real" where
  "total_minimum_payments p = sum_list (map minimum_payment (debts p))"

text \<open>
  Text built with Python's format specifications (\<open>f"{x:.2f}"\<close>, \<open>f"{x:.1%}"\<close>, ...)
  depends on the rendering of a number as decimal digits, which is not modelled: every
  function that formats a number takes the rendering as its first argument \<open>fmt\<close>, a
  function from the format specification and the number to the text.
\<close>

type_synonym formatter = "string \<Rightarrow> real \<Rightarrow> string"

text \<open>
  The exceptions a call can end with: the two input errors the specification names for
  the payoff simulator, and Python's \<open>AttributeError\<close> for an attribute read on
  \<open>None\<close>. A function that can raise returns \<open>error + result\<close>.
\<close>

datatype error = InvalidStrategy | InvalidAllocation | AttributeError

subsection \<open>Debts (data\_models/debt.py)\<close>

text \<open>\<open>max(0, x)\<close>\<close>

definition principal_in_minimum :: "Debt \<Rightarrow> real" where
  "principal_in_minimum d = max 0 (minimum_payment d - interest_this_month d)"

definition debt_validate :: "formatter \<Rightarrow> Debt \<Rightarrow> string list" where
  "debt_validate fmt d =
     (if current_balance d < 0 then [name d @ '': Balance cannot be negative''] else [])
     @ (if annual_interest_rate d < 0
        then [name d @ '': Interest rate cannot be negative''] else [])
     @ (if annual_interest_rate d > 1
        then [name d @ '': WARNING: Interest rate exceeds 100% APR''] else [])
     @ (if minimum_payment d < 0
        then [name d @ '': Minimum payment cannot be negative''] else [])
     @ (if current_balance d > 0 \<and> minimum_payment d \<le> interest_this_month d
        then [name d @ '': CRITICAL: Minimum payment ($'' @ fmt ''.2f'' (minimum_payment d)
              @ '') does not cover monthly interest ($'' @ fmt ''.2f'' (interest_this_month d)
              @ ''). Debt will grow indefinitely.'']
        else [])
     @ (if due_day d < 1 \<or> due_day d > 31
        then [name d @ '': Due day must be between 1 and 31''] else [])"

definition weighted_average_interest_rate :: "DebtPortfolio \<Rightarrow> real" where
  "weighted_average_interest_rate p =
     (if total_balance p = 0 then 0
      else sum_list (map (\<lambda>d. current_balance d * annual_interest_rate d) (debts p))
           / total_balance p)"

text \<open>
  \<open>max(self.debts, key=...)\<close> keeps the first debt of maximal rate; \<open>None\<close> for the
  empty portfolio.
\<close>

fun max_rate_from :: "Debt \<Rightarrow> Debt list \<Rightarrow> Debt" where
  "max_rate_from best [] = best"
| "max_rate_from best (d # ds) =
     (if annual_interest_rate best < annual_interest_rate d then max_rate_from d ds
      else max_rate_from best ds)"

definition highest_interest_debt :: "DebtPortfolio \<Rightarrow> Debt option" where
  "highest_interest_debt p =
     (case debts p of [] \<Rightarrow> None | d # ds \<Rightarrow> Some (max_rate_from d ds))"

definition total_monthly_interest :: "DebtPortfolio \<Rightarrow> real" where
  "total_monthly_interest p = sum_list (map interest_this_month (debts p))"

definition has_high_interest_debt :: "DebtPortfolio \<Rightarrow> real \<Rightarrow> bool" where
  "has_high_interest_debt p threshold = list_ex (\<lambda>d. threshold < annual_interest_rate d) (debts p)"

definition portfolio_validate :: "formatter \<Rightarrow> DebtPortfolio \<Rightarrow> string list" where
  "portfolio_validate fmt p =
     (if debts p = [] then [''No debts defined''] else [])
     @ concat (map (debt_validate fmt) (debts p))"

subsection \<open>User profile (data\_models/user\_profile.py)\<close>

datatype RiskTolerance = CONSERVATIVE | MODERATE | AGGRESSIVE

datatype PayFrequency = WEEKLY | BI_WEEKLY | SEMI_MONTHLY | MONTHLY | ANNUALLY

text \<open>
  The fields \<open>name\<close> and \<open>amount\<close> of \<open>IncomeStream\<close> and \<open>Expense\<close> carry a prefix,
  \<open>name\<close> being taken by \<open>Debt\<close>.
\<close>

record IncomeStream =
  stream_name :: string
  stream_amount :: real
  frequency :: PayFrequency

definition monthly_amount :: "IncomeStream \<Rightarrow> real" where
  "monthly_amount s =
     stream_amount s *
       (case frequency s of
          WEEKLY \<Rightarrow> 52 / 12
        | BI_WEEKLY \<Rightarrow> 26 / 12
        | SEMI_MONTHLY \<Rightarrow> 2
        | MONTHLY \<Rightarrow> 1
        | ANNUALLY \<Rightarrow> 1 / 12)"

record Expense =
  expense_name :: string
  expense_amount :: real
  is_essential :: bool

record UserProfile =
  income_streams :: "IncomeStream list"
  expenses :: "Expense list"
  current_savings :: real
  current_investments :: real
  risk_tolerance :: RiskTolerance
  time_horizon_months :: int
  emergency_fund_months :: real

definition total_monthly_income :: "UserProfile \<Rightarrow> real" where
  "total_monthly_income u = sum_list (map monthly_amount (income_streams u))"

definition total_monthly_expenses :: "UserProfile \<Rightarrow> real" where
  "total_monthly_expenses u = sum_list (map expense_amount (expenses u))"

definition essential_monthly_expenses :: "UserProfile \<Rightarrow> real" where
  "essential_monthly_expenses u =
     sum_list (map expense_amount (filter is_essential (expenses u)))"

definition emergency_fund_target :: "UserProfile \<Rightarrow> real" where
  "emergency_fund_target u = essential_monthly_expenses u * emergency_fund_months u"

definition has_adequate_emergency_fund :: "UserProfile \<Rightarrow> bool" where
  "has_adequate_emergency_fund u = (emergency_fund_target u \<le> current_savings u)"

definition profile_validate :: "formatter \<Rightarrow> UserProfile \<Rightarrow> string list" where
  "profile_validate fmt u =
     (if income_streams u = [] then [''No income streams defined''] else [])
     @ (if total_monthly_income u \<le> 0 then [''Total monthly income must be positive''] else [])
     @ (if total_monthly_expenses u < 0
        then [''Total monthly expenses cannot be negative''] else [])
     @ (if current_savings u < 0 then [''Current savings cannot be negative''] else [])
     @ (if current_investments u < 0 then [''Current investments cannot be negative''] else [])
     @ (if time_horizon_months u \<le> 0 then [''Time horizon must be positive''] else [])
     @ (if emergency_fund_months u < 0
        then [''Emergency fund months cannot be negative''] else [])
     @ (if total_monthly_income u < total_monthly_expenses u
        then [''WARNING: Monthly expenses exceed income (negative cashflow)''] else [])
     @ (if \<not> has_adequate_emergency_fund u
        then [''WARNING: Emergency fund ($'' @ fmt '',.2f'' (current_savings u)
              @ '') is below recommended target ($'' @ fmt '',.2f'' (emergency_fund_target u)
              @ '')'']
        else [])"

datatype PayoffStrategy = AVALANCHE | SNOWBALL | HYBRID

section \<open>Cashflow analysis (core/cashflow.py)\<close>

text \<open>
  \<open>CashflowAnalyzer\<close> holds a profile and a portfolio; its methods are functions of the
  two.
\<close>

definition monthly_gross_income :: "UserProfile \<Rightarrow> real" where
  "monthly_gross_income u = total_monthly_income u"

definition monthly_total_expenses :: "UserProfile \<Rightarrow> real" where
  "monthly_total_expenses u = total_monthly_expenses u"

definition monthly_minimum_debt_payments :: "DebtPortfolio \<Rightarrow> real" where
  "monthly_minimum_debt_payments p = total_minimum_payments p"

definition monthly_obligations :: "UserProfile \<Rightarrow> DebtPortfolio \<Rightarrow> real" where
  "monthly_obligations u p = monthly_total_expenses u + monthly_minimum_debt_payments p"

definition monthly_surplus :: "UserProfile \<Rightarrow> DebtPortfolio \<Rightarrow> real" where
  "monthly_surplus u p = monthly_gross_income u - monthly_obligations u p"

definition has_positive_cashflow :: "UserProfile \<Rightarrow> DebtPortfolio \<Rightarrow> bool" where
  "has_positive_cashflow u p = (0 < monthly_surplus u p)"

text \<open>A ratio that is \<open>float('inf')\<close> when the income is zero.\<close>

datatype ratio = Finite real | Infinite

definition debt_to_income_ratio :: "UserProfile \<Rightarrow> DebtPortfolio \<Rightarrow> ratio" where
  "debt_to_income_ratio u p =
     (let annual_income = monthly_gross_income u * 12
      in if annual_income = 0 then Infinite else Finite (total_balance p / annual_income))"

definition debt_service_ratio :: "UserProfile \<Rightarrow> DebtPortfolio \<Rightarrow> ratio" where
  "debt_service_ratio u p =
     (let income = monthly_gross_income u
      in if income = 0 then Infinite
         else Finite (monthly_minimum_debt_payments p / income))"

definition ratio_exceeds :: "ratio \<Rightarrow> real \<Rightarrow> bool" where
  "ratio_exceeds q bound = (case q of Infinite \<Rightarrow> True | Finite x \<Rightarrow> bound < x)"

text \<open>Python renders infinity as \<open>inf\<close>, and as \<open>inf%\<close> under a percent format.\<close>

definition format_ratio :: "formatter \<Rightarrow> string \<Rightarrow> string \<Rightarrow> ratio \<Rightarrow> string" where
  "format_ratio fmt spec inf_text q = (case q of Infinite \<Rightarrow> inf_text | Finite x \<Rightarrow> fmt spec x)"

text \<open>The flag raised for each debt whose minimum payment does not cover its interest.\<close>

definition uncovered_interest_flag :: "Debt \<Rightarrow> string" where
  "uncovered_interest_flag d =
     ''CRITICAL: '' @ name d @ '' minimum payment does not cover interest. ''
     @ ''Balance will grow indefinitely. Increase payments immediately.''"

text \<open>
  \<open>get_red_flags\<close>: the flags in the order the source appends them. The number in
  \<open>{self.profile.emergency_fund_months}\<close> has no format specification, written \<open>[]\<close>.
\<close>

definition get_red_flags :: "formatter \<Rightarrow> UserProfile \<Rightarrow> DebtPortfolio \<Rightarrow> string list" where
  "get_red_flags fmt u p =
     (if \<not> has_positive_cashflow u p
      then [''CRITICAL: Negative monthly cashflow. ''
            @ ''Expenses and debt payments exceed income.'']
      else [])
     @ (let surplus = monthly_surplus u p
        in if 0 < surplus \<and> surplus < 100
           then [''WARNING: Very low monthly surplus ($'' @ fmt ''.2f'' surplus @ ''). ''
                 @ ''Limited room for extra payments or emergencies.'']
           else [])
     @ (let dti = debt_to_income_ratio u p
        in if ratio_exceeds dti 2
           then [''WARNING: High debt-to-income ratio ('' @ format_ratio fmt ''.1f'' ''inf'' dti
                 @ ''x annual income). ''
                 @ ''Consider debt consolidation or credit counseling.'']
           else [])
     @ (let dsr = debt_service_ratio u p
        in if ratio_exceeds dsr (43 / 100)
           then [''WARNING: High debt service ratio ('' @ format_ratio fmt ''.1%'' ''inf%'' dsr
                 @ '' of income). ''
                 @ ''Debt payments consume a large portion of income.'']
           else [])
     @ (if \<not> has_adequate_emergency_fund u
        then [''WARNING: Emergency fund ($'' @ fmt '',.2f'' (current_savings u) @ '') ''
              @ ''below recommended '' @ fmt [] (emergency_fund_months u) @ '' months ''
              @ ''of expenses ($'' @ fmt '',.2f'' (emergency_fund_target u) @ '').'']
        else [])
     @ (if has_high_interest_debt p (20 / 100)
        then (case highest_interest_debt p of
                None \<Rightarrow> []
              | Some highest \<Rightarrow>
                  [''WARNING: High-interest debt detected. ''
                   @ name highest @ '' has '' @ fmt ''.1%'' (annual_interest_rate highest)
                   @ '' APR. '' @ ''Prioritize paying this down.''])
        else [])
     @ map uncovered_interest_flag
         (filter (\<lambda>debt. 0 < current_balance debt
                          \<and> minimum_payment debt \<le> interest_this_month debt) (debts p))"

text \<open>\<open>calculate_safe_surplus\<close> with its safety margin (default \<open>0.1\<close>).\<close>

definition calculate_safe_surplus :: "UserProfile \<Rightarrow> DebtPortfolio \<Rightarrow> real \<Rightarrow> real" where
  "calculate_safe_surplus u p safety_margin =
     (let surplus = monthly_surplus u p
      in if surplus \<le> 0 then 0
         else max 0 (surplus * (1 - safety_margin)))"

subsection \<open>Amortization schedule\<close>

text \<open>
  A schedule entry is the tuple the source appends:
  (month, payment, interest, principal payment, remaining balance). The source's
  parameter \<open>principal\<close> is written \<open>principal0\<close>, the plain name being a constant of
  the library.
\<close>

type_synonym schedule_entry = "nat \<times> real \<times> real \<times> real \<times> real"

text \<open>
  The loop \<open>for month in range(1, max_months + 1)\<close>: the first argument counts the
  passes still allowed, \<open>month\<close> is the loop variable; both \<open>break\<close>s return the
  schedule built so far.
\<close>

fun amortization_loop ::
  "nat \<Rightarrow> nat \<Rightarrow> real \<Rightarrow> real \<Rightarrow> real \<Rightarrow> schedule_entry list \<Rightarrow> schedule_entry list" where
  "amortization_loop 0 month balance monthly_rate monthly_payment schedule = schedule"
| "amortization_loop (Suc n) month balance monthly_rate monthly_payment schedule =
     (if balance \<le> 0 then schedule
      else let interest = balance * monthly_rate;
               principal_payment = min (monthly_payment - interest) balance
           in if principal_payment \<le> 0 then schedule
              else let balance1 = balance - principal_payment
                   in amortization_loop n (month + 1) balance1 monthly_rate monthly_payment
                        (schedule @ [(month,
                                      min monthly_payment (interest + balance1 + principal_payment),
                                      interest,
                                      principal_payment,
                                      max 0 balance1)]))"

definition calculate_amortization_schedule ::
  "real \<Rightarrow> real \<Rightarrow> real \<Rightarrow> nat \<Rightarrow> schedule_entry list" where
  "calculate_amortization_schedule principal0 annual_rate monthly_payment max_months =
     (let monthly_rate = annual_rate / 12
      in amortization_loop max_months 1 principal0 monthly_rate monthly_payment [])"

text \<open>
  The balance outstanding before the payment of entry \<open>i\<close>: the principal for the first
  entry, the remaining balance recorded by the entry before it otherwise.
\<close>

definition balance_before :: "real \<Rightarrow> schedule_entry list \<Rightarrow> nat \<Rightarrow> real" where
  "balance_before principal0 schedule i =
     (if i = 0 then principal0 else snd (snd (snd (snd (schedule ! (i - 1))))))"

section \<open>Simulation engine (core/simulation.py)\<close>

subsection \<open>\<open>simulate_etf_growth\<close>\<close>

text \<open>
  The loop \<open>for month in range(months)\<close> with its two variables \<open>balance\<close> and
  \<open>values\<close>: each pass adds the contribution, applies the return, appends.
\<close>

fun etf_growth_loop :: "nat \<Rightarrow> real \<Rightarrow> real \<Rightarrow> real \<times> real list \<Rightarrow> real \<times> real list" where
  "etf_growth_loop 0 monthly_contribution monthly_return (balance, values) = (balance, values)"
| "etf_growth_loop (Suc n) monthly_contribution monthly_return (balance, values) =
     (let balance1 = balance + monthly_contribution;
          balance2 = balance1 * (1 + monthly_return)
      in etf_growth_loop n monthly_contribution monthly_return (balance2, values @ [balance2]))"

definition simulate_etf_growth :: "real \<Rightarrow> real \<Rightarrow> nat \<Rightarrow> real \<Rightarrow> real list" where
  "simulate_etf_growth monthly_contribution annual_return months initial_balance =
     (let monthly_return = annual_return / 12
      in snd (etf_growth_loop months monthly_contribution monthly_return (initial_balance, [])))"

subsection \<open>\<open>simulate_combined_scenario\<close>\<close>

text \<open>
  One aggregated snapshot per simulated month, as \<open>simulate_payoff\<close> returns them;
  the engine reads only \<open>total_payment\<close>.
\<close>

record DebtEntry =
  entry_debt :: string
  entry_payment :: real
  entry_interest :: real
  entry_principal :: real
  entry_remaining :: real

record Snapshot =
  snap_month :: nat
  snap_entries :: "DebtEntry list"
  total_payment :: real

text \<open>
  \<open>PayoffStrategyEngine.simulate_payoff\<close> lives in core/payoff\_strategies.py, which is
  not among the sources. The engine is therefore parameterised by it (the argument
  \<open>sp\<close> of the definitions below): a function from
  the debts, the extra payment, the strategy and the horizon to either an exception
  (the two input errors the specification names) or the triple
  (snapshots, total interest, months to payoff). By the data model of the specification
  it works on its own copy of the debts and leaves the caller's portfolio unchanged.
  An exception raised by it (see \<open>error\<close>) passes through every function of the engine
  unchanged.
\<close>

type_synonym payoff_result = "Snapshot list \<times> real \<times> nat"
type_synonym payoff_sim =
  "Debt list \<Rightarrow> real \<Rightarrow> PayoffStrategy \<Rightarrow> nat \<Rightarrow> error + payoff_result"

text \<open>The six loop variables of the two investment loops.\<close>

record etf_vars =
  balance_low :: real
  balance_med :: real
  balance_high :: real
  values_low :: "real list"
  values_med :: "real list"
  values_high :: "real list"

definition etf_step :: "real \<Rightarrow> real \<Rightarrow> real \<Rightarrow> real \<Rightarrow> etf_vars \<Rightarrow> etf_vars" where
  "etf_step contribution monthly_return_low monthly_return_med monthly_return_high v =
     (let bl = (balance_low v + contribution) * (1 + monthly_return_low);
          bm = (balance_med v + contribution) * (1 + monthly_return_med);
          bh = (balance_high v + contribution) * (1 + monthly_return_high)
      in \<lparr> balance_low = bl, balance_med = bm, balance_high = bh,
           values_low = values_low v @ [bl],
           values_med = values_med v @ [bm],
           values_high = values_high v @ [bh] \<rparr>)"

fun etf_loop :: "nat \<Rightarrow> real \<Rightarrow> real \<Rightarrow> real \<Rightarrow> real \<Rightarrow> etf_vars \<Rightarrow> etf_vars" where
  "etf_loop 0 contribution rl rm rh v = v"
| "etf_loop (Suc n) contribution rl rm rh v =
     etf_loop n contribution rl rm rh (etf_step contribution rl rm rh v)"

text \<open>The dictionary returned by \<open>simulate_combined_scenario\<close>, one field per key.\<close>

record combined_result =
  res_months_to_debt_free :: "nat option"
  res_total_interest_paid :: real
  res_total_debt_payments :: real
  res_total_etf_contributions :: real
  final_etf_value_low :: real
  final_etf_value_medium :: real
  final_etf_value_high :: real
  debt_snapshots :: "Snapshot list"
  etf_values_low :: "real list"
  etf_values_medium :: "real list"
  etf_values_high :: "real list"

text \<open>\<open>xs[-1] if xs else default\<close>\<close>

definition last_or :: "real list \<Rightarrow> real \<Rightarrow> real" where
  "last_or xs d = (if xs = [] then d else last xs)"

definition simulate_combined_scenario ::
  "payoff_sim \<Rightarrow> DebtPortfolio \<Rightarrow> real \<Rightarrow> real \<Rightarrow> PayoffStrategy \<Rightarrow> real \<Rightarrow> real \<Rightarrow> real
     \<Rightarrow> real \<Rightarrow> nat \<Rightarrow> error + combined_result" where
  "simulate_combined_scenario sp self_debts monthly_extra_debt monthly_etf strategy
       annual_return_low annual_return_med annual_return_high initial_etf_balance max_months =
     (case sp (debts self_debts) monthly_extra_debt strategy max_months of
        Inl e \<Rightarrow> Inl e
      | Inr (snapshots, total_interest, months_to_debt_free) \<Rightarrow>
     (let sim_months = min months_to_debt_free max_months;
          monthly_etf_after_debt_free =
            monthly_etf + monthly_extra_debt + total_minimum_payments self_debts;
          v0 = \<lparr> balance_low = initial_etf_balance, balance_med = initial_etf_balance,
                 balance_high = initial_etf_balance,
                 values_low = [], values_med = [], values_high = [] \<rparr>;
          monthly_return_low = annual_return_low / 12;
          monthly_return_med = annual_return_med / 12;
          monthly_return_high = annual_return_high / 12;
          v1 = etf_loop sim_months monthly_etf
                 monthly_return_low monthly_return_med monthly_return_high v0;
          remaining_months = max_months - sim_months;
          v2 = (if remaining_months > 0
                then etf_loop remaining_months monthly_etf_after_debt_free
                       monthly_return_low monthly_return_med monthly_return_high v1
                else v1);
          total_etf = monthly_etf * real sim_months
                      + monthly_etf_after_debt_free * real remaining_months;
          total_debt = sum_list (map total_payment snapshots)
      in Inr \<lparr> res_months_to_debt_free =
             (if months_to_debt_free < max_months then Some months_to_debt_free else None),
           res_total_interest_paid = total_interest,
           res_total_debt_payments = total_debt,
           res_total_etf_contributions = total_etf,
           final_etf_value_low = last_or (values_low v2) initial_etf_balance,
           final_etf_value_medium = last_or (values_med v2) initial_etf_balance,
           final_etf_value_high = last_or (values_high v2) initial_etf_balance,
           debt_snapshots = snapshots,
           etf_values_low = values_low v2,
           etf_values_medium = values_med v2,
           etf_values_high = values_high v2 \<rparr>))"

section \<open>Plans (data\_models/plan.py)\<close>

text \<open>
  Fields of these records whose names are already taken (by another record or by a
  parameter of the engine) carry the prefix \<open>mp\<close>, \<open>month\<close>, \<open>etf\<close> or \<open>plan\<close>.
\<close>

record MonthlyPayment =
  mp_debt_name :: string
  mp_total_payment :: real
  mp_principal :: real
  mp_interest :: real
  mp_remaining_balance :: real

record MonthlyPlan =
  month_number :: nat
  payments :: "MonthlyPayment list"
  etf_contribution :: real
  total_debt_payment :: real
  total_remaining_debt :: real

record ETFAllocation =
  category :: string
  percentage :: real
  example_ticker :: string
  etf_description :: string

record DebtPayoffPlan =
  plan_strategy :: PayoffStrategy
  plan_monthly_surplus :: real
  debt_allocation_percentage :: real
  etf_allocation_percentage :: real
  monthly_extra_debt_payment :: real
  monthly_etf_contribution :: real
  etf_allocations :: "ETFAllocation list"
  estimated_months_to_debt_free :: "nat option"
  monthly_plans :: "MonthlyPlan list"
  plan_total_interest_paid :: real
  total_interest_saved :: real
  plan_estimated_etf_value_low :: real
  plan_estimated_etf_value_medium :: real
  plan_estimated_etf_value_high :: real
  plan_warnings :: "string list"
  recommendations :: "string list"

record ScenarioComparison =
  scenario_name :: string
  months_to_debt_free :: "nat option"
  total_interest_paid :: real
  total_debt_payments :: real
  total_etf_contributions :: real
  estimated_etf_value_low :: real
  estimated_etf_value_medium :: real
  estimated_etf_value_high :: real
  net_worth_at_end_low :: real
  net_worth_at_end_medium :: real
  net_worth_at_end_high :: real
  description :: string

record PlanOutput =
  recommended_plan :: DebtPayoffPlan
  debt_only_scenario :: "ScenarioComparison option"
  balanced_scenario :: "ScenarioComparison option"
  minimum_only_scenario :: "ScenarioComparison option"
  executive_summary :: string
  detailed_explanation :: string
  tradeoff_analysis :: string
  action_steps :: "string list"
  disclaimer :: string

definition default_disclaimer :: string where
  "default_disclaimer =
     ''IMPORTANT DISCLAIMER: This tool provides educational planning estimates only ''
     @ ''and is not financial, investment, tax, or legal advice. All projections are ''
     @ ''hypothetical and not guaranteed. Actual results may vary significantly. ''
     @ ''Consider consulting a qualified financial professional before making financial decisions.''"

text \<open>
  Python truth value of an \<open>Optional\<close> month count, as tested by
  \<open>x if scenario.months_to_debt_free else y\<close>: \<open>None\<close> and \<open>0\<close> are false.
\<close>

definition truthy :: "nat option \<Rightarrow> bool" where
  "truthy m = (case m of None \<Rightarrow> False | Some k \<Rightarrow> k \<noteq> 0)"





section \<open>Scenario comparisons (core/simulation.py)\<close>

text \<open>
  \<open>create_scenario_comparison\<close> does not pass \<open>max_months\<close>, so the default 600 of
  \<open>simulate_combined_scenario\<close> applies.
\<close>

definition create_scenario_comparison ::
  "payoff_sim \<Rightarrow> DebtPortfolio \<Rightarrow> string \<Rightarrow> real \<Rightarrow> real \<Rightarrow> PayoffStrategy \<Rightarrow> real \<Rightarrow> real
     \<Rightarrow> real \<Rightarrow> real \<Rightarrow> string \<Rightarrow> error + ScenarioComparison" where
  "create_scenario_comparison sp self_debts scenario_name_arg monthly_extra_debt
       monthly_etf strategy annual_return_low annual_return_med annual_return_high
       initial_etf_balance description_arg =
     (case simulate_combined_scenario sp self_debts monthly_extra_debt
             monthly_etf strategy annual_return_low annual_return_med
             annual_return_high initial_etf_balance 600 of
        Inl e \<Rightarrow> Inl e
      | Inr results \<Rightarrow>
     (let remaining_debt = (if truthy (res_months_to_debt_free results) then 0
                            else total_balance self_debts)
      in Inr \<lparr> scenario_name = scenario_name_arg,
           months_to_debt_free = res_months_to_debt_free results,
           total_interest_paid = res_total_interest_paid results,
           total_debt_payments = res_total_debt_payments results,
           total_etf_contributions = res_total_etf_contributions results,
           estimated_etf_value_low = final_etf_value_low results,
           estimated_etf_value_medium = final_etf_value_medium results,
           estimated_etf_value_high = final_etf_value_high results,
           net_worth_at_end_low = final_etf_value_low results - remaining_debt,
           net_worth_at_end_medium = final_etf_value_medium results - remaining_debt,
           net_worth_at_end_high = final_etf_value_high results - remaining_debt,
           description = description_arg \<rparr>))"

text \<open>
  The three calls run in the source's order; the first exception ends the call. The
  parameters \<open>scenario_name\<close>, \<open>description\<close> and \<open>monthly_surplus\<close> of the source are
  written with the suffix \<open>arg\<close> here, their names being those of a field or a method.
\<close>

definition compare_scenarios ::
  "payoff_sim \<Rightarrow> DebtPortfolio \<Rightarrow> real \<Rightarrow> PayoffStrategy \<Rightarrow> real \<Rightarrow> real \<Rightarrow> real \<Rightarrow> real
     \<Rightarrow> error + (ScenarioComparison \<times> ScenarioComparison \<times> ScenarioComparison)" where
  "compare_scenarios sp self_debts monthly_surplus_arg strategy annual_return_low
       annual_return_med annual_return_high initial_etf_balance =
     (case create_scenario_comparison sp self_debts
            ''Minimum Payments Only'' 0 0 strategy
            annual_return_low annual_return_med annual_return_high initial_etf_balance
            ''Pay only minimum payments on all debts with no extra allocation.'' of
        Inl e \<Rightarrow> Inl e
      | Inr minimum_only \<Rightarrow>
     (case create_scenario_comparison sp self_debts
            ''100% Debt Payoff'' monthly_surplus_arg 0 strategy
            annual_return_low annual_return_med annual_return_high initial_etf_balance
            ''Allocate 100% of surplus to extra debt payments.'' of
        Inl e \<Rightarrow> Inl e
      | Inr debt_only \<Rightarrow>
     (case create_scenario_comparison sp self_debts
            ''Balanced (70% Debt / 30% ETF)'' (monthly_surplus_arg * (7 / 10))
            (monthly_surplus_arg * (3 / 10)) strategy
            annual_return_low annual_return_med annual_return_high initial_etf_balance
            ''Allocate 70% of surplus to debt and 30% to ETF investing.'' of
        Inl e \<Rightarrow> Inl e
      | Inr balanced \<Rightarrow> Inr (minimum_only, debt_only, balanced))))"

section \<open>Allocation between debt and ETF (core/etf\_allocation.py)\<close>

definition HIGH_INTEREST_THRESHOLD :: real where
  "HIGH_INTEREST_THRESHOLD = 20 / 100"

definition VERY_HIGH_INTEREST_THRESHOLD :: real where
  "VERY_HIGH_INTEREST_THRESHOLD = 15 / 100"

definition MODERATE_INTEREST_THRESHOLD :: real where
  "MODERATE_INTEREST_THRESHOLD = 10 / 100"

text \<open>
  \<open>calculate_allocation_split\<close>: the rule table, first matching rule first. Rules 2 and
  3 read \<open>highest.name\<close>, which raises \<open>AttributeError\<close> if \<open>highest\<close> is \<open>None\<close>. The
  parameter \<open>monthly_surplus\<close> is written \<open>monthly_surplus_arg\<close>.
\<close>

definition calculate_allocation_split ::
  "formatter \<Rightarrow> UserProfile \<Rightarrow> DebtPortfolio \<Rightarrow> real \<Rightarrow> error + (real \<times> real \<times> string list)" where
  "calculate_allocation_split fmt self_profile self_debts monthly_surplus_arg =
     (if monthly_surplus_arg \<le> 0
      then Inr (1, 0, [''No surplus available for extra payments or investing.''])
      else if \<not> has_adequate_emergency_fund self_profile
      then Inr (1, 0,
             [''Emergency fund is below recommended level. ''
              @ ''Prioritizing debt payoff over investing. ''
              @ ''Consider building emergency savings alongside debt reduction.''])
      else if has_high_interest_debt self_debts HIGH_INTEREST_THRESHOLD
      then (case highest_interest_debt self_debts of
              None \<Rightarrow> Inl AttributeError
            | Some highest \<Rightarrow>
                Inr (1, 0,
                  [''Very high-interest debt detected ('' @ name highest @ '' at ''
                   @ fmt ''.1%'' (annual_interest_rate highest) @ '' APR). ''
                   @ ''Paying down this debt provides guaranteed return exceeding ''
                   @ ''typical market returns. Allocating 100% to debt payoff.'']))
      else if has_high_interest_debt self_debts VERY_HIGH_INTEREST_THRESHOLD
      then (case highest_interest_debt self_debts of
              None \<Rightarrow> Inl AttributeError
            | Some highest \<Rightarrow>
                (let reasoning =
                       [''High-interest debt detected ('' @ name highest @ '' at ''
                        @ fmt ''.1%'' (annual_interest_rate highest) @ '' APR). ''
                        @ ''Strongly prioritizing debt payoff with minimal ETF allocation.'']
                 in if risk_tolerance self_profile = AGGRESSIVE
                    then Inr (85 / 100, 15 / 100, reasoning)
                    else Inr (90 / 100, 10 / 100, reasoning)))
      else if has_high_interest_debt self_debts MODERATE_INTEREST_THRESHOLD
      then (let avg_rate = weighted_average_interest_rate self_debts;
                reasoning =
                  [''Moderate-interest debt (weighted average '' @ fmt ''.1%'' avg_rate
                   @ '' APR). ''
                   @ ''Using balanced approach between debt payoff and investing.'']
            in if risk_tolerance self_profile = CONSERVATIVE
               then Inr (80 / 100, 20 / 100, reasoning)
               else if risk_tolerance self_profile = MODERATE
               then Inr (70 / 100, 30 / 100, reasoning)
               else Inr (60 / 100, 40 / 100, reasoning))
      else (let avg_rate = weighted_average_interest_rate self_debts;
                reasoning =
                  [''Low-interest debt (weighted average '' @ fmt ''.1%'' avg_rate
                   @ '' APR). ''
                   @ ''Expected market returns may exceed debt interest. ''
                   @ ''Allocating more to ETF investing while maintaining debt payoff.'']
            in if risk_tolerance self_profile = CONSERVATIVE
               then Inr (70 / 100, 30 / 100, reasoning)
               else if risk_tolerance self_profile = MODERATE
               then Inr (60 / 100, 40 / 100, reasoning)
               else Inr (50 / 100, 50 / 100, reasoning)))"

definition get_etf_recommendations :: "UserProfile \<Rightarrow> ETFAllocation list" where
  "get_etf_recommendations self_profile =
     (if risk_tolerance self_profile = CONSERVATIVE
      then [\<lparr> category = ''Bond Index'', percentage = 50 / 100, example_ticker = ''BND'',
              etf_description = ''Broad U.S. investment-grade bonds for stability'' \<rparr>,
            \<lparr> category = ''Total Market Index'', percentage = 40 / 100,
              example_ticker = ''VTI'',
              etf_description = ''Broad U.S. stock market exposure'' \<rparr>,
            \<lparr> category = ''International Bonds'', percentage = 10 / 100,
              example_ticker = ''BNDX'',
              etf_description = ''International investment-grade bonds for diversification'' \<rparr>]
      else if risk_tolerance self_profile = MODERATE
      then [\<lparr> category = ''Total Market Index'', percentage = 50 / 100,
              example_ticker = ''VTI'',
              etf_description = ''Broad U.S. stock market exposure'' \<rparr>,
            \<lparr> category = ''Bond Index'', percentage = 30 / 100, example_ticker = ''BND'',
              etf_description = ''U.S. investment-grade bonds for stability'' \<rparr>,
            \<lparr> category = ''International Stock Index'', percentage = 20 / 100,
              example_ticker = ''VXUS'',
              etf_description = ''International stock market diversification'' \<rparr>]
      else [\<lparr> category = ''Total Market Index'', percentage = 60 / 100,
              example_ticker = ''VTI'',
              etf_description = ''Broad U.S. stock market exposure'' \<rparr>,
            \<lparr> category = ''International Stock Index'', percentage = 25 / 100,
              example_ticker = ''VXUS'',
              etf_description = ''International stock market diversification'' \<rparr>,
            \<lparr> category = ''Bond Index'', percentage = 15 / 100, example_ticker = ''BND'',
              etf_description = ''U.S. investment-grade bonds for some stability'' \<rparr>])"

definition get_expected_returns :: "UserProfile \<Rightarrow> real \<times> real \<times> real" where
  "get_expected_returns self_profile =
     (if risk_tolerance self_profile = CONSERVATIVE then (3 / 100, 5 / 100, 7 / 100)
      else if risk_tolerance self_profile = MODERATE then (4 / 100, 7 / 100, 10 / 100)
      else (5 / 100, 8 / 100, 12 / 100))"

definition validate_allocation ::
  "formatter \<Rightarrow> UserProfile \<Rightarrow> DebtPortfolio \<Rightarrow> real \<Rightarrow> real \<Rightarrow> string list" where
  "validate_allocation fmt self_profile self_debts debt_percentage etf_percentage =
     (if debt_percentage < 0 \<or> debt_percentage > 1
      then [''Debt percentage must be between 0 and 1''] else [])
     @ (if etf_percentage < 0 \<or> etf_percentage > 1
        then [''ETF percentage must be between 0 and 1''] else [])
     @ (let total = debt_percentage + etf_percentage
        in if \<bar>total - 1\<bar> > 1 / 100
           then [''Debt and ETF percentages must sum to 100% (currently ''
                 @ fmt ''.1f'' (total * 100) @ ''%)'']
           else [])
     @ (if etf_percentage > 0 \<and> \<not> has_adequate_emergency_fund self_profile
        then [''WARNING: Investing without adequate emergency fund is risky. ''
              @ ''Consider building emergency savings first.'']
        else [])
     @ (if etf_percentage > 1 / 10
           \<and> has_high_interest_debt self_debts HIGH_INTEREST_THRESHOLD
        then [''WARNING: Investing while carrying very high-interest debt ''
              @ ''may not be optimal. The guaranteed return from paying down ''
              @ ''debt likely exceeds expected market returns.'']
        else [])"

section \<open>The planner (core/planner.py)\<close>

text \<open>\<open>w.startswith(p)\<close> and \<open>sub in w\<close> on strings.\<close>

definition startswith :: "string \<Rightarrow> string \<Rightarrow> bool" where
  "startswith w p = (take (length p) w = p)"

definition contains :: "string \<Rightarrow> string \<Rightarrow> bool" where
  "contains sub w = list_ex (\<lambda>i. take (length sub) (drop i w) = sub) [0 ..< Suc (length w)]"

definition is_critical :: "string \<Rightarrow> bool" where
  "is_critical w = (startswith w ''CRITICAL'' \<or> contains ''cannot be negative'' w)"

definition validate_inputs ::
  "formatter \<Rightarrow> UserProfile \<Rightarrow> DebtPortfolio \<Rightarrow> bool \<times> string list" where
  "validate_inputs fmt self_profile self_debts =
     (let warnings = profile_validate fmt self_profile
                     @ portfolio_validate fmt self_debts
                     @ get_red_flags fmt self_profile self_debts;
          critical_errors = filter is_critical warnings;
          is_valid = (length critical_errors = 0)
      in (is_valid, warnings))"

text \<open>
  \<open>PayoffStrategyEngine.calculate_interest_saved\<close> is, like \<open>simulate_payoff\<close>, in the
  file that is not among the sources, and a parameter (\<open>isaved\<close>) of the planner: from the
  debts, the extra payment and the strategy to the pair (interest with the extra
  payment, interest with minimum payments only), or an exception.
\<close>

type_synonym interest_sim =
  "Debt list \<Rightarrow> real \<Rightarrow> PayoffStrategy \<Rightarrow> error + (real \<times> real)"

text \<open>
  The four text generators of core/explanations.py produce prose only; the planner
  takes them as the record \<open>narr\<close>. The cashflow analyzer they receive is determined by
  the profile and the portfolio.
\<close>

record narrator =
  generate_executive_summary :: "DebtPayoffPlan \<Rightarrow> UserProfile \<Rightarrow> DebtPortfolio \<Rightarrow> string"
  generate_detailed_explanation :: "DebtPayoffPlan \<Rightarrow> UserProfile \<Rightarrow> DebtPortfolio \<Rightarrow> string"
  generate_tradeoff_analysis ::
    "ScenarioComparison \<Rightarrow> ScenarioComparison \<Rightarrow> ScenarioComparison \<Rightarrow> string"
  generate_action_steps :: "DebtPayoffPlan \<Rightarrow> DebtPortfolio \<Rightarrow> string list"

definition generate_complete_output ::
  "narrator \<Rightarrow> DebtPayoffPlan \<Rightarrow> UserProfile \<Rightarrow> DebtPortfolio \<Rightarrow> ScenarioComparison
     \<Rightarrow> ScenarioComparison \<Rightarrow> ScenarioComparison \<Rightarrow> PlanOutput" where
  "generate_complete_output narr plan profile debts_arg minimum_only debt_only balanced =
     \<lparr> recommended_plan = plan,
       debt_only_scenario = Some debt_only,
       balanced_scenario = Some balanced,
       minimum_only_scenario = Some minimum_only,
       executive_summary = generate_executive_summary narr plan profile debts_arg,
       detailed_explanation = generate_detailed_explanation narr plan profile debts_arg,
       tradeoff_analysis = generate_tradeoff_analysis narr minimum_only debt_only balanced,
       action_steps = generate_action_steps narr plan debts_arg,
       disclaimer = default_disclaimer \<rparr>"

text \<open>
  The plan and the output \<open>create_plan\<close> returns when the inputs are not valid: the
  fields it does not set have the defaults of the dataclasses.
\<close>

definition empty_plan :: "PayoffStrategy \<Rightarrow> string list \<Rightarrow> DebtPayoffPlan" where
  "empty_plan self_strategy warnings =
     \<lparr> plan_strategy = self_strategy,
       plan_monthly_surplus = 0,
       debt_allocation_percentage = 1,
       etf_allocation_percentage = 0,
       monthly_extra_debt_payment = 0,
       monthly_etf_contribution = 0,
       etf_allocations = [],
       estimated_months_to_debt_free = None,
       monthly_plans = [],
       plan_total_interest_paid = 0,
       total_interest_saved = 0,
       plan_estimated_etf_value_low = 0,
       plan_estimated_etf_value_medium = 0,
       plan_estimated_etf_value_high = 0,
       plan_warnings = warnings,
       recommendations = [] \<rparr>"

definition unable_output :: "PayoffStrategy \<Rightarrow> string list \<Rightarrow> PlanOutput" where
  "unable_output self_strategy warnings =
     \<lparr> recommended_plan = empty_plan self_strategy warnings,
       debt_only_scenario = None,
       balanced_scenario = None,
       minimum_only_scenario = None,
       executive_summary =
         ''Unable to create plan due to critical errors. Please review warnings.'',
       detailed_explanation = [],
       tradeoff_analysis = [],
       action_steps = [''Address critical errors before proceeding with planning.''],
       disclaimer = default_disclaimer \<rparr>"

text \<open>
  \<open>create_plan\<close>. The local \<open>monthly_surplus\<close> is written \<open>surplus\<close>. An exception of
  the payoff simulator ends the call.
\<close>

definition create_plan ::
  "formatter \<Rightarrow> payoff_sim \<Rightarrow> interest_sim \<Rightarrow> narrator \<Rightarrow> UserProfile \<Rightarrow> DebtPortfolio
     \<Rightarrow> PayoffStrategy \<Rightarrow> bool \<Rightarrow> real option \<Rightarrow> real option \<Rightarrow> error + PlanOutput" where
  "create_plan fmt sp isaved narr self_profile self_debts self_strategy use_safe_surplus
       custom_debt_percentage custom_etf_percentage =
     (case validate_inputs fmt self_profile self_debts of (is_valid, warnings) \<Rightarrow>
      if \<not> is_valid then Inr (unable_output self_strategy warnings)
      else
       (let surplus = (if use_safe_surplus
                       then calculate_safe_surplus self_profile self_debts (1 / 10)
                       else monthly_surplus self_profile self_debts)
        in case (case (custom_debt_percentage, custom_etf_percentage) of
                   (Some debt_pct, Some etf_pct) \<Rightarrow>
                     Inr (debt_pct, etf_pct, [''Using custom allocation percentages.''],
                          warnings @ validate_allocation fmt self_profile self_debts
                                       debt_pct etf_pct)
                 | _ \<Rightarrow>
                     (case calculate_allocation_split fmt self_profile self_debts surplus of
                        Inl e \<Rightarrow> Inl e
                      | Inr (debt_pct, etf_pct, allocation_reasoning) \<Rightarrow>
                          Inr (debt_pct, etf_pct, allocation_reasoning, warnings))) of
             Inl e \<Rightarrow> Inl e
           | Inr (debt_pct, etf_pct, allocation_reasoning, warnings1) \<Rightarrow>
       (let monthly_extra_debt = surplus * debt_pct;
            monthly_etf = surplus * etf_pct;
            etf_allocs = get_etf_recommendations self_profile
        in case get_expected_returns self_profile of (return_low, return_med, return_high) \<Rightarrow>
           (case simulate_combined_scenario sp self_debts monthly_extra_debt monthly_etf
                   self_strategy return_low return_med return_high
                   (current_investments self_profile) 600 of
              Inl e \<Rightarrow> Inl e
            | Inr recommended_results \<Rightarrow>
           (case isaved (debts self_debts) monthly_extra_debt self_strategy of
              Inl e \<Rightarrow> Inl e
            | Inr (interest_with_extra, interest_minimum_only) \<Rightarrow>
           (let interest_saved = interest_minimum_only - interest_with_extra;
                plan = \<lparr> plan_strategy = self_strategy,
                         plan_monthly_surplus = surplus,
                         debt_allocation_percentage = debt_pct,
                         etf_allocation_percentage = etf_pct,
                         monthly_extra_debt_payment = monthly_extra_debt,
                         monthly_etf_contribution = monthly_etf,
                         etf_allocations = etf_allocs,
                         estimated_months_to_debt_free =
                           res_months_to_debt_free recommended_results,
                         monthly_plans = [],
                         plan_total_interest_paid = res_total_interest_paid recommended_results,
                         total_interest_saved = interest_saved,
                         plan_estimated_etf_value_low = final_etf_value_low recommended_results,
                         plan_estimated_etf_value_medium =
                           final_etf_value_medium recommended_results,
                         plan_estimated_etf_value_high =
                           final_etf_value_high recommended_results,
                         plan_warnings = warnings1,
                         recommendations = allocation_reasoning \<rparr>
            in case compare_scenarios sp self_debts surplus self_strategy
                      return_low return_med return_high
                      (current_investments self_profile) of
                 Inl e \<Rightarrow> Inl e
               | Inr (minimum_only, debt_only, balanced) \<Rightarrow>
                   Inr (generate_complete_output narr plan self_profile self_debts
                          minimum_only debt_only balanced)))))))"

section \<open>The payoff simulator (core/payoff\_strategies.py)\<close>

text \<open>
  The file core/payoff\_strategies.py is not among the sources; only its callers and
  tests are. Its three operations are written here from sections 3, 4.1 and 4.2 of the
  specification, under the names its callers use. They serve to run the engine on
  concrete portfolios; every general theorem about the engine holds for any payoff
  simulator.
\<close>

text \<open>
  Modelled from the spec: the closing tolerance of the simulator, which is absent from
  the sources (``every debt balance is at most a small tolerance (e.g. \$0.01)'').
\<close>

definition tolerance :: real where
  "tolerance = 1 / 100"

text \<open>
  Modelled from the spec: the state of a debt, absent from the sources: a debt is open
  while its balance is above the tolerance, closed (and terminal) otherwise.
\<close>

definition is_open :: "Debt \<Rightarrow> bool" where
  "is_open d = (tolerance < current_balance d)"

text \<open>
  Modelled from the spec: the principal part of the minimum payment in the simulator,
  absent from the sources (``principal = minimum - interest, clipped to remaining
  balance'').
\<close>

definition minimum_principal :: "Debt \<Rightarrow> real" where
  "minimum_principal d = min (minimum_payment d - interest_this_month d) (current_balance d)"

text \<open>
  Modelled from the spec: the balance of a debt after its minimum payment for the
  period, absent from the sources.
\<close>

definition balance_after_minimum :: "Debt \<Rightarrow> real" where
  "balance_after_minimum d = current_balance d - minimum_principal d"

text \<open>
  Modelled from the spec: the stable ordering used by \<open>prioritize_debts\<close>, absent from
  the sources. \<open>precedes a b\<close> says that \<open>a\<close> has strictly higher priority than \<open>b\<close>;
  debts of equal priority keep their portfolio order.
\<close>

fun insert_by :: "(Debt \<Rightarrow> Debt \<Rightarrow> bool) \<Rightarrow> Debt \<Rightarrow> Debt list \<Rightarrow> Debt list" where
  "insert_by precedes x [] = [x]"
| "insert_by precedes x (y # ys) =
     (if precedes y x then y # insert_by precedes x ys else x # y # ys)"

text \<open>
  Modelled from the spec: the stable sort of \<open>prioritize_debts\<close>, absent from the
  sources, by insertion from the right.
\<close>

definition sort_by :: "(Debt \<Rightarrow> Debt \<Rightarrow> bool) \<Rightarrow> Debt list \<Rightarrow> Debt list" where
  "sort_by precedes xs = foldr (insert_by precedes) xs []"

text \<open>
  Modelled from the spec: the avalanche order, absent from the sources: descending by
  annual rate, ties by descending balance.
\<close>

definition avalanche_before :: "Debt \<Rightarrow> Debt \<Rightarrow> bool" where
  "avalanche_before a b =
     (annual_interest_rate b < annual_interest_rate a
      \<or> (annual_interest_rate a = annual_interest_rate b
          \<and> current_balance b < current_balance a))"

text \<open>
  Modelled from the spec: the snowball order, absent from the sources: ascending by
  balance, ties by descending rate.
\<close>

definition snowball_before :: "Debt \<Rightarrow> Debt \<Rightarrow> bool" where
  "snowball_before a b =
     (current_balance a < current_balance b
      \<or> (current_balance a = current_balance b
          \<and> annual_interest_rate b < annual_interest_rate a))"

text \<open>
  Modelled from the spec: \<open>PayoffStrategyEngine.prioritize_debts\<close>, absent from the
  sources. Avalanche orders by descending rate, ties by descending balance; snowball by
  ascending balance, ties by descending rate; debts with zero or negative balance are
  left out. The specification leaves the hybrid rule open, so it is the parameter
  \<open>hybrid_rule\<close>.
\<close>

definition prioritize_debts ::
  "(Debt list \<Rightarrow> Debt list) \<Rightarrow> Debt list \<Rightarrow> PayoffStrategy \<Rightarrow> Debt list" where
  "prioritize_debts hybrid_rule ds strategy =
     (let live = filter (\<lambda>d. 0 < current_balance d) ds
      in case strategy of
           AVALANCHE \<Rightarrow> sort_by avalanche_before live
         | SNOWBALL \<Rightarrow> sort_by snowball_before live
         | HYBRID \<Rightarrow> hybrid_rule live)"

text \<open>
  Modelled from the spec: the waterfall of \<open>PayoffStrategyEngine.allocate_extra_payment\<close>,
  absent from the sources: each debt in priority order gets the lesser of its balance
  after the minimum payment and what is left of the budget.
\<close>

fun waterfall :: "Debt list \<Rightarrow> real \<Rightarrow> (Debt \<times> real) list" where
  "waterfall [] budget = []"
| "waterfall (d # ds) budget =
     (let give = min (balance_after_minimum d) budget
      in (d, give) # waterfall ds (budget - give))"

text \<open>
  Modelled from the spec: \<open>PayoffStrategyEngine.allocate_extra_payment\<close>, absent from
  the sources: the waterfall over the priority order, as pairs of debt and extra amount.
  A negative budget is the error \<open>InvalidAllocation\<close>.
\<close>

definition allocate_extra_payment ::
  "(Debt list \<Rightarrow> Debt list) \<Rightarrow> Debt list \<Rightarrow> real \<Rightarrow> PayoffStrategy
     \<Rightarrow> error + (Debt \<times> real) list" where
  "allocate_extra_payment hybrid_rule ds extra_payment strategy =
     (if extra_payment < 0 then Inl InvalidAllocation
      else Inr (waterfall (prioritize_debts hybrid_rule ds strategy) extra_payment))"

text \<open>
  Modelled from the spec: the extra amount allocated to a debt in one simulated month
  of \<open>PayoffStrategyEngine.simulate_payoff\<close>, absent from the sources. A debt is
  identified by its name.
\<close>

definition extra_for :: "(Debt \<times> real) list \<Rightarrow> Debt \<Rightarrow> real" where
  "extra_for alloc d =
     (case find (\<lambda>p. name (fst p) = name d) alloc of None \<Rightarrow> 0 | Some p \<Rightarrow> snd p)"

text \<open>
  Modelled from the spec: one simulated month for one debt, absent from the sources:
  an open debt accrues interest, receives its minimum payment and its share of the
  extra payment; a closed debt is left alone.
\<close>

definition pay_debt :: "(Debt \<times> real) list \<Rightarrow> Debt \<Rightarrow> Debt" where
  "pay_debt alloc d =
     (if is_open d
      then d\<lparr> current_balance := balance_after_minimum d - extra_for alloc d \<rparr>
      else d)"

text \<open>
  Modelled from the spec: the snapshot entry of one open debt for one simulated month,
  absent from the sources: payment, interest portion, principal portion and remaining
  balance.
\<close>

definition debt_entry :: "(Debt \<times> real) list \<Rightarrow> Debt \<Rightarrow> DebtEntry" where
  "debt_entry alloc d =
     \<lparr> entry_debt = name d,
       entry_payment = interest_this_month d + minimum_principal d + extra_for alloc d,
       entry_interest = interest_this_month d,
       entry_principal = minimum_principal d + extra_for alloc d,
       entry_remaining = balance_after_minimum d - extra_for alloc d \<rparr>"

text \<open>
  Modelled from the spec: the month loop of \<open>PayoffStrategyEngine.simulate_payoff\<close>,
  absent from the sources. The first argument counts the months still allowed; the loop
  ends when no debt is open or the horizon is reached, and returns the snapshots, the
  total interest and the number of months simulated, which is \<open>max_months\<close> when the
  horizon is reached.
\<close>

fun payoff_loop ::
  "nat \<Rightarrow> (Debt list \<Rightarrow> Debt list) \<Rightarrow> real \<Rightarrow> PayoffStrategy \<Rightarrow> Debt list \<Rightarrow> Snapshot list
     \<Rightarrow> real \<Rightarrow> nat \<Rightarrow> payoff_result" where
  "payoff_loop 0 hybrid_rule extra strategy ds snaps total_interest months =
     (snaps, total_interest, months)"
| "payoff_loop (Suc n) hybrid_rule extra strategy ds snaps total_interest months =
     (if \<not> list_ex is_open ds then (snaps, total_interest, months)
      else let open_debts = filter is_open ds;
               alloc = waterfall (prioritize_debts hybrid_rule open_debts strategy) extra;
               entries = map (debt_entry alloc) open_debts;
               snap = \<lparr> snap_month = months + 1, snap_entries = entries,
                        total_payment = sum_list (map entry_payment entries) \<rparr>
           in payoff_loop n hybrid_rule extra strategy (map (pay_debt alloc) ds)
                (snaps @ [snap]) (total_interest + sum_list (map entry_interest entries))
                (months + 1))"

text \<open>
  Modelled from the spec: \<open>PayoffStrategyEngine.simulate_payoff\<close>, absent from the
  sources. It works on the list it is given as a value, so the caller's portfolio is
  unchanged.
\<close>

definition simulate_payoff :: "(Debt list \<Rightarrow> Debt list) \<Rightarrow> payoff_sim" where
  "simulate_payoff hybrid_rule ds monthly_extra_payment strategy max_months =
     (if monthly_extra_payment < 0 then Inl InvalidAllocation
      else Inr (payoff_loop max_months hybrid_rule monthly_extra_payment strategy ds [] 0 0))"

text \<open>
  Modelled from the spec: the balance still outstanding after the last simulated month,
  which the simulator (absent from the sources) records per open debt in its last
  snapshot; without snapshots no month was simulated.
\<close>

definition outstanding_at_horizon :: "Snapshot list \<Rightarrow> real" where
  "outstanding_at_horizon snaps =
     (if snaps = [] then 0 else sum_list (map entry_remaining (snap_entries (last snaps))))"

text \<open>
  Modelled from the spec: \<open>PayoffStrategyEngine.calculate_interest_saved\<close>, absent from
  the sources: the simulator run with the extra payment and with none, on the same
  starting debts, returning both interest totals. The horizon is the default 600.
\<close>

definition calculate_interest_saved :: "(Debt list \<Rightarrow> Debt list) \<Rightarrow> interest_sim" where
  "calculate_interest_saved hybrid_rule ds monthly_extra_payment strategy =
     (case simulate_payoff hybrid_rule ds monthly_extra_payment strategy 600 of
        Inl e \<Rightarrow> Inl e
      | Inr (snaps_extra, interest_with_extra, months_extra) \<Rightarrow>
     (case simulate_payoff hybrid_rule ds 0 strategy 600 of
        Inl e \<Rightarrow> Inl e
      | Inr (snaps_minimum, interest_minimum_only, months_minimum) \<Rightarrow>
          Inr (interest_with_extra, interest_minimum_only)))"

section \<open>Trajectories of the investment loops\<close>

text \<open>
  The values one investment loop appends in \<open>n\<close> passes from balance \<open>b\<close>, and the
  balance it ends with.
\<close>

fun traj :: "nat \<Rightarrow> real \<Rightarrow> real \<Rightarrow> real \<Rightarrow> real list" where
  "traj 0 c r b = []"
| "traj (Suc n) c r b = (b + c) * (1 + r) # traj n c r ((b + c) * (1 + r))"

fun bal_after :: "nat \<Rightarrow> real \<Rightarrow> real \<Rightarrow> real \<Rightarrow> real" where
  "bal_after 0 c r b = b"
| "bal_after (Suc n) c r b = bal_after n c r ((b + c) * (1 + r))"

text \<open>
  The values of the two loops of \<open>simulate_combined_scenario\<close> one after the other:
  \<open>n1\<close> passes with contribution \<open>c1\<close>, then \<open>n2\<close> passes with \<open>c2\<close>.
\<close>

definition two_phase :: "nat \<Rightarrow> nat \<Rightarrow> real \<Rightarrow> real \<Rightarrow> real \<Rightarrow> real \<Rightarrow> real list" where
  "two_phase n1 n2 c1 c2 r b = traj n1 c1 r b @ traj n2 c2 r (bal_after n1 c1 r b)"

text \<open>
  The balance a month's deposit is added to: the initial balance in the first month,
  the value recorded for the month before otherwise.
\<close>

definition prev_balance :: "real list \<Rightarrow> real \<Rightarrow> nat \<Rightarrow> real" where
  "prev_balance vals initial k = (if k = 0 then initial else vals ! (k - 1))"

text \<open>
  The dictionary \<open>simulate_combined_scenario\<close> returns, written with the trajectories
  above, for the payoff result \<open>(sn, ti, m)\<close>.
\<close>

definition combined_result_of ::
  "DebtPortfolio \<Rightarrow> real \<Rightarrow> real \<Rightarrow> real \<Rightarrow> real \<Rightarrow> real \<Rightarrow> real \<Rightarrow> nat \<Rightarrow> Snapshot list \<Rightarrow> real \<Rightarrow> nat \<Rightarrow> combined_result" where
  "combined_result_of P extra etf rl rm rh init M sn ti m =
     (let n1 = min m M; n2 = M - min m M; c2 = etf + extra + total_minimum_payments P
      in \<lparr> res_months_to_debt_free = (if m < M then Some m else None),
           res_total_interest_paid = ti,
           res_total_debt_payments = sum_list (map total_payment sn),
           res_total_etf_contributions = etf * real n1 + c2 * real n2,
           final_etf_value_low = last_or (two_phase n1 n2 etf c2 (rl / 12) init) init,
           final_etf_value_medium = last_or (two_phase n1 n2 etf c2 (rm / 12) init) init,
           final_etf_value_high = last_or (two_phase n1 n2 etf c2 (rh / 12) init) init,
           debt_snapshots = sn,
           etf_values_low = two_phase n1 n2 etf c2 (rl / 12) init,
           etf_values_medium = two_phase n1 n2 etf c2 (rm / 12) init,
           etf_values_high = two_phase n1 n2 etf c2 (rh / 12) init \<rparr>)"

text \<open>
  What is to hold of entry \<open>i\<close> of a schedule \<open>L\<close> that started from balance \<open>b\<close> at
  monthly rate \<open>r\<close>.
\<close>

definition entry_ok :: "real \<Rightarrow> real \<Rightarrow> schedule_entry list \<Rightarrow> nat \<Rightarrow> bool" where
  "entry_ok b r L i = (case L ! i of (mo, pay, intr, pp, rem) \<Rightarrow>
      pay = intr + pp \<and> pp \<le> balance_before b L i \<and> intr = balance_before b L i * r \<and> 0 \<le> rem
      \<and> rem = balance_before b L i - pp)"

section \<open>Example inputs\<close>

text \<open>
  Two single-debt portfolios at zero interest, small enough to follow by hand, and the
  hybrid rule used with them (the examples use avalanche, so it is never consulted).
\<close>

definition zero_interest_loan :: Debt where
  "zero_interest_loan =
     \<lparr> name = ''Loan'', debt_type = PERSONAL_LOAN, current_balance = 1000,
       annual_interest_rate = 0, minimum_payment = 100, due_day = 1 \<rparr>"

definition slow_loan :: Debt where
  "slow_loan =
     \<lparr> name = ''Slow'', debt_type = PERSONAL_LOAN, current_balance = 1200,
       annual_interest_rate = 0, minimum_payment = 1, due_day = 1 \<rparr>"

definition keep_order :: "Debt list \<Rightarrow> Debt list" where
  "keep_order ds = ds"

text \<open>
  The profile and the loan of the repository's test \<open>test_conservative_allocation\<close>, and
  a number rendering for closed examples (every number is rendered as the empty text).
\<close>

definition sample_saver :: UserProfile where
  "sample_saver =
     \<lparr> income_streams = [], expenses = [], current_savings = 10000,
       current_investments = 0, risk_tolerance = CONSERVATIVE, time_horizon_months = 60,
       emergency_fund_months = 3 \<rparr>"

definition low_interest_loan :: Debt where
  "low_interest_loan =
     \<lparr> name = ''Low Interest Loan'', debt_type = STUDENT_LOAN, current_balance = 10000,
       annual_interest_rate = 5 / 100, minimum_payment = 100, due_day = 1 \<rparr>"

definition no_digits :: formatter where
  "no_digits spec x = []"

text \<open>
  A household with a monthly salary and rent, the debt of the specification's horizon
  example (balance 1000 at 12\%, minimum payment 5, below the monthly interest of 10),
  and text generators that write nothing.
\<close>

definition earner :: UserProfile where
  "earner =
     \<lparr> income_streams = [\<lparr> stream_name = ''Salary'', stream_amount = 5000,
                            frequency = MONTHLY \<rparr>],
       expenses = [\<lparr> expense_name = ''Rent'', expense_amount = 2000, is_essential = True \<rparr>],
       current_savings = 10000, current_investments = 0, risk_tolerance = CONSERVATIVE,
       time_horizon_months = 60, emergency_fund_months = 3 \<rparr>"

definition sentinel_card :: Debt where
  "sentinel_card =
     \<lparr> name = ''Card'', debt_type = CREDIT_CARD, current_balance = 1000,
       annual_interest_rate = 12 / 100, minimum_payment = 5, due_day = 1 \<rparr>"

text \<open>
  The rendering of the two numbers the warnings of this household contain, as Python
  prints them under \<open>.2f\<close>.
\<close>

definition two_decimals :: formatter where
  "two_decimals spec x =
     (if spec = ''.2f'' \<and> x = 5 then ''5.00''
      else if spec = ''.2f'' \<and> x = 10 then ''10.00''
      else [])"

definition silent_narrator :: narrator where
  "silent_narrator =
     \<lparr> generate_executive_summary = (\<lambda>plan profile ds. []),
       generate_detailed_explanation = (\<lambda>plan profile ds. []),
       generate_tradeoff_analysis = (\<lambda>a b c. []),
       generate_action_steps = (\<lambda>plan ds. []) \<rparr>"


section \<open>Lemmas on the investment loops\<close>

lemma length_traj [simp]: "length (traj n c r b) = n"
  by (induction n arbitrary: b) auto

lemma traj_nth:
  "k < n \<Longrightarrow> traj n c r b ! k = (prev_balance (traj n c r b) b k + c) * (1 + r)"
proof (induction n arbitrary: b k)
  case 0 then show ?case by simp
next
  case (Suc n)
  show ?case
  proof (cases k)
    case 0 then show ?thesis by (simp add: prev_balance_def)
  next
    case (Suc j)
    with Suc.prems have "j < n" by simp
    from Suc.IH[OF this, of "(b + c) * (1 + r)"] Suc show ?thesis
      by (cases j) (simp_all add: prev_balance_def)
  qed
qed

lemma last_or_traj: "last_or (traj n c r b) b = bal_after n c r b"
proof (induction n arbitrary: b)
  case 0 show ?case by (simp add: last_or_def)
next
  case (Suc n)
  from Suc[of "(b + c) * (1 + r)"] show ?case
    by (cases n) (auto simp: last_or_def)
qed

lemma etf_growth_loop_traj:
  "etf_growth_loop n c r (b, vs) = (bal_after n c r b, vs @ traj n c r b)"
  by (induction n arbitrary: b vs) (simp_all add: Let_def)

lemma simulate_etf_growth_traj:
  "simulate_etf_growth c r n b = traj n c (r / 12) b"
  by (simp add: simulate_etf_growth_def etf_growth_loop_traj)

lemma etf_loop_low:
  "values_low (etf_loop n c rl rm rh v) = values_low v @ traj n c rl (balance_low v)"
  "balance_low (etf_loop n c rl rm rh v) = bal_after n c rl (balance_low v)"
  by (induction n arbitrary: v) (simp_all add: etf_step_def Let_def)

lemma etf_loop_med:
  "values_med (etf_loop n c rl rm rh v) = values_med v @ traj n c rm (balance_med v)"
  "balance_med (etf_loop n c rl rm rh v) = bal_after n c rm (balance_med v)"
  by (induction n arbitrary: v) (simp_all add: etf_step_def Let_def)

lemma etf_loop_high:
  "values_high (etf_loop n c rl rm rh v) = values_high v @ traj n c rh (balance_high v)"
  "balance_high (etf_loop n c rl rm rh v) = bal_after n c rh (balance_high v)"
  by (induction n arbitrary: v) (simp_all add: etf_step_def Let_def)

lemma length_two_phase [simp]: "length (two_phase n1 n2 c1 c2 r b) = n1 + n2"
  by (simp add: two_phase_def)

lemma two_phase_nth:
  assumes "k < n1 + n2"
  shows "two_phase n1 n2 c1 c2 r b ! k =
           (prev_balance (two_phase n1 n2 c1 c2 r b) b k + (if k < n1 then c1 else c2)) * (1 + r)"
proof (cases "k < n1")
  case True
  then show ?thesis
    using traj_nth[of k n1 c1 r b]
    by (auto simp: two_phase_def nth_append prev_balance_def)
next
  case False
  define j where "j = k - n1"
  have j: "j < n2" "k = n1 + j" using assms False by (auto simp: j_def)
  have prev: "prev_balance (two_phase n1 n2 c1 c2 r b) b k
              = prev_balance (traj n2 c2 r (bal_after n1 c1 r b)) (bal_after n1 c1 r b) j"
  proof (cases j)
    case 0
    then have k: "k = n1" using j by simp
    show ?thesis
    proof (cases "n1 = 0")
      case True
      then show ?thesis using k 0 by (simp add: prev_balance_def)
    next
      case False
      then have ne: "traj n1 c1 r b \<noteq> []" by (metis length_traj list.size(3))
      have "traj n1 c1 r b ! (n1 - 1) = last (traj n1 c1 r b)"
        using ne by (simp add: last_conv_nth)
      also have "\<dots> = bal_after n1 c1 r b"
        using last_or_traj[of n1 c1 r b] ne by (simp add: last_or_def)
      finally show ?thesis using False k 0
        by (simp add: prev_balance_def two_phase_def nth_append)
    qed
  next
    case (Suc i)
    then show ?thesis using j
      by (auto simp: prev_balance_def two_phase_def nth_append)
  qed
  show ?thesis
    using traj_nth[OF j(1), of c2 r "bal_after n1 c1 r b"] False j prev
    by (simp add: two_phase_def nth_append)
qed

lemma two_phase_nth_after:
  assumes "n1 \<le> k" "k < n1 + n2"
  shows "two_phase n1 n2 c1 c2 r b ! k =
           (prev_balance (two_phase n1 n2 c1 c2 r b) b k + c2) * (1 + r)"
  using two_phase_nth[OF assms(2), of c1 c2 r b] assms(1) by simp

lemma scs_returns:
  assumes "sp (debts P) extra strat M = Inr (sn, ti, m)"
  shows "simulate_combined_scenario sp P extra etf strat rl rm rh init M
           = Inr (combined_result_of P extra etf rl rm rh init M sn ti m)"
  using assms
  by (simp add: simulate_combined_scenario_def combined_result_of_def Let_def two_phase_def
        etf_loop_low etf_loop_med etf_loop_high)


section \<open>Claims about the investment trajectories\<close>

text \<open>
  C6. Every month of every investment trajectory is updated deposit-then-grow: the
  value recorded for a month is the balance before it plus that month's contribution,
  times \<open>1 + annual_return / 12\<close>. This holds for \<open>simulate_etf_growth\<close> and, whenever
  the payoff simulator returns, for the low, medium and high trajectories of
  \<open>simulate_combined_scenario\<close> alike, with the base contribution before the payoff
  month and the increased one from it on.
\<close>

theorem deposit_then_grow:
  assumes "sp (debts P) extra strat M = Inr (sn, ti, m)"
  shows "(\<forall>k < months. simulate_etf_growth c r months b0 ! k =
             (prev_balance (simulate_etf_growth c r months b0) b0 k + c) * (1 + r / 12))
       \<and> (\<exists>R. simulate_combined_scenario sp P extra etf strat rl rm rh init M = Inr R
            \<and> (\<forall>k < M.
                 etf_values_low R ! k =
                   (prev_balance (etf_values_low R) init k
                      + (if k < min m M then etf else etf + extra + total_minimum_payments P))
                   * (1 + rl / 12)
               \<and> etf_values_medium R ! k =
                   (prev_balance (etf_values_medium R) init k
                      + (if k < min m M then etf else etf + extra + total_minimum_payments P))
                   * (1 + rm / 12)
               \<and> etf_values_high R ! k =
                   (prev_balance (etf_values_high R) init k
                      + (if k < min m M then etf else etf + extra + total_minimum_payments P))
                   * (1 + rh / 12)))"
proof (intro conjI)
  show "\<forall>k < months. simulate_etf_growth c r months b0 ! k =
             (prev_balance (simulate_etf_growth c r months b0) b0 k + c) * (1 + r / 12)"
    by (simp add: simulate_etf_growth_traj traj_nth)
next
  let ?R = "combined_result_of P extra etf rl rm rh init M sn ti m"
  have "k < M \<Longrightarrow> k < min m M + (M - min m M)" for k by simp
  then have "\<forall>k < M.
                 etf_values_low ?R ! k =
                   (prev_balance (etf_values_low ?R) init k
                      + (if k < min m M then etf else etf + extra + total_minimum_payments P))
                   * (1 + rl / 12)
               \<and> etf_values_medium ?R ! k =
                   (prev_balance (etf_values_medium ?R) init k
                      + (if k < min m M then etf else etf + extra + total_minimum_payments P))
                   * (1 + rm / 12)
               \<and> etf_values_high ?R ! k =
                   (prev_balance (etf_values_high ?R) init k
                      + (if k < min m M then etf else etf + extra + total_minimum_payments P))
                   * (1 + rh / 12)"
    by (simp add: combined_result_of_def Let_def two_phase_nth)
  with scs_returns[where sp=sp, OF assms] show "\<exists>R. simulate_combined_scenario sp P extra etf strat rl rm rh init M = Inr R
            \<and> (\<forall>k < M.
                 etf_values_low R ! k =
                   (prev_balance (etf_values_low R) init k
                      + (if k < min m M then etf else etf + extra + total_minimum_payments P))
                   * (1 + rl / 12)
               \<and> etf_values_medium R ! k =
                   (prev_balance (etf_values_medium R) init k
                      + (if k < min m M then etf else etf + extra + total_minimum_payments P))
                   * (1 + rm / 12)
               \<and> etf_values_high R ! k =
                   (prev_balance (etf_values_high R) init k
                      + (if k < min m M then etf else etf + extra + total_minimum_payments P))
                   * (1 + rh / 12))"
    by blast
qed

lemma zero_interest_balanced_payoff:
  "\<exists>sn. simulate_payoff keep_order [zero_interest_loan] 70 AVALANCHE 600 = Inr (sn, 0, 6)"
proof -
  have "snd (payoff_loop 600 keep_order 70 AVALANCHE [zero_interest_loan] [] 0 0) = (0, 6)"
    by code_simp
  then obtain sn where
    "payoff_loop 600 keep_order 70 AVALANCHE [zero_interest_loan] [] 0 0 = (sn, 0, 6)"
    by (cases "payoff_loop 600 keep_order 70 AVALANCHE [zero_interest_loan] [] 0 0") auto
  then show ?thesis by (simp add: simulate_payoff_def)
qed

lemma zero_interest_debt_only_payoff:
  "\<exists>sn. simulate_payoff keep_order [zero_interest_loan] 100 AVALANCHE 600 = Inr (sn, 0, 5)"
proof -
  have "snd (payoff_loop 600 keep_order 100 AVALANCHE [zero_interest_loan] [] 0 0) = (0, 5)"
    by code_simp
  then obtain sn where
    "payoff_loop 600 keep_order 100 AVALANCHE [zero_interest_loan] [] 0 0 = (sn, 0, 5)"
    by (cases "payoff_loop 600 keep_order 100 AVALANCHE [zero_interest_loan] [] 0 0") auto
  then show ?thesis by (simp add: simulate_payoff_def)
qed

lemma zero_interest_minimums:
  "total_minimum_payments \<lparr> debts = [zero_interest_loan] \<rparr> = 100"
  by (simp add: total_minimum_payments_def zero_interest_loan_def)

theorem deposit_then_grow_witness:
  "simulate_etf_growth 500 (8 / 100) 12 0 ! 0 = (0 + 500) * (1 + (8 / 100) / 12)
   \<and> (\<exists>R. simulate_combined_scenario (simulate_payoff keep_order)
             \<lparr> debts = [zero_interest_loan] \<rparr> 70 30 AVALANCHE (4 / 100) (7 / 100) (10 / 100)
             0 600 = Inr R
        \<and> etf_values_low R ! 0 = (0 + 30) * (1 + (4 / 100) / 12)
        \<and> etf_values_high R ! 6 = (etf_values_high R ! 5 + 200) * (1 + (10 / 100) / 12))"
proof -
  obtain sn where h: "simulate_payoff keep_order (debts \<lparr> debts = [zero_interest_loan] \<rparr>)
                        70 AVALANCHE 600 = Inr (sn, 0, 6)"
    using zero_interest_balanced_payoff by auto
  note inst = deposit_then_grow[where sp = "simulate_payoff keep_order", OF h,
         of 12 500 "8 / 100" 0 30 "4 / 100" "7 / 100" "10 / 100" 0]
  from inst have g: "simulate_etf_growth 500 (8 / 100) 12 0 ! 0 =
      (prev_balance (simulate_etf_growth 500 (8 / 100) 12 0) 0 0 + 500) * (1 + (8 / 100) / 12)"
    by simp
  from inst obtain R where R: "simulate_combined_scenario (simulate_payoff keep_order)
             \<lparr> debts = [zero_interest_loan] \<rparr> 70 30 AVALANCHE (4 / 100) (7 / 100) (10 / 100)
             0 600 = Inr R"
    and low: "\<And>k. k < 600 \<Longrightarrow> etf_values_low R ! k =
                   (prev_balance (etf_values_low R) 0 k
                      + (if k < min 6 600 then 30
                         else 30 + 70 + total_minimum_payments \<lparr> debts = [zero_interest_loan] \<rparr>))
                   * (1 + (4 / 100) / 12)"
    and high: "\<And>k. k < 600 \<Longrightarrow> etf_values_high R ! k =
                   (prev_balance (etf_values_high R) 0 k
                      + (if k < min 6 600 then 30
                         else 30 + 70 + total_minimum_payments \<lparr> debts = [zero_interest_loan] \<rparr>))
                   * (1 + (10 / 100) / 12)"
    by blast
  from g low[of 0] high[of 6] R show ?thesis
    by (auto simp: prev_balance_def zero_interest_minimums)
qed

text \<open>
  C5. Whenever the payoff simulator returns, in every month from the payoff month
  (or the horizon, whichever is first) up to \<open>max_months\<close> the contribution is the base
  ETF contribution plus the extra debt payment plus the sum of the minimum payments of
  all debts of the portfolio, and it enters the low, medium and high trajectories in
  the same way.
\<close>

theorem freed_up_cash_redirected:
  assumes "sp (debts P) extra strat M = Inr (sn, ti, m)"
  shows "\<exists>R. simulate_combined_scenario sp P extra etf strat rl rm rh init M = Inr R
            \<and> (\<forall>k. min m M \<le> k \<and> k < M \<longrightarrow>
                 etf_values_low R ! k =
                   (prev_balance (etf_values_low R) init k
                      + (etf + extra + sum_list (map minimum_payment (debts P))))
                   * (1 + rl / 12)
               \<and> etf_values_medium R ! k =
                   (prev_balance (etf_values_medium R) init k
                      + (etf + extra + sum_list (map minimum_payment (debts P))))
                   * (1 + rm / 12)
               \<and> etf_values_high R ! k =
                   (prev_balance (etf_values_high R) init k
                      + (etf + extra + sum_list (map minimum_payment (debts P))))
                   * (1 + rh / 12))"
proof -
  let ?R = "combined_result_of P extra etf rl rm rh init M sn ti m"
  have idx: "k < M \<Longrightarrow> k < min m M + (M - min m M)" for k by simp
  have "\<forall>k. min m M \<le> k \<and> k < M \<longrightarrow>
                 etf_values_low ?R ! k =
                   (prev_balance (etf_values_low ?R) init k
                      + (etf + extra + sum_list (map minimum_payment (debts P))))
                   * (1 + rl / 12)
               \<and> etf_values_medium ?R ! k =
                   (prev_balance (etf_values_medium ?R) init k
                      + (etf + extra + sum_list (map minimum_payment (debts P))))
                   * (1 + rm / 12)
               \<and> etf_values_high ?R ! k =
                   (prev_balance (etf_values_high ?R) init k
                      + (etf + extra + sum_list (map minimum_payment (debts P))))
                   * (1 + rh / 12)"
  proof (intro allI impI)
    fix k assume k: "min m M \<le> k \<and> k < M"
    then have after: "min m M \<le> k" by simp
    from idx[of k] k have inside: "k < min m M + (M - min m M)" by simp
    show "etf_values_low ?R ! k =
                   (prev_balance (etf_values_low ?R) init k
                      + (etf + extra + sum_list (map minimum_payment (debts P))))
                   * (1 + rl / 12)
               \<and> etf_values_medium ?R ! k =
                   (prev_balance (etf_values_medium ?R) init k
                      + (etf + extra + sum_list (map minimum_payment (debts P))))
                   * (1 + rm / 12)
               \<and> etf_values_high ?R ! k =
                   (prev_balance (etf_values_high ?R) init k
                      + (etf + extra + sum_list (map minimum_payment (debts P))))
                   * (1 + rh / 12)"
      by (simp add: combined_result_of_def Let_def total_minimum_payments_def
            two_phase_nth_after[OF after inside])
  qed
  with scs_returns[where sp = sp, OF assms] show ?thesis by blast
qed

theorem freed_up_cash_redirected_witness:
  "\<exists>R. simulate_combined_scenario (simulate_payoff keep_order)
             \<lparr> debts = [zero_interest_loan] \<rparr> 70 30 AVALANCHE (4 / 100) (7 / 100) (10 / 100)
             0 600 = Inr R
        \<and> etf_values_low R ! 6 = (etf_values_low R ! 5 + (30 + 70 + 100)) * (1 + (4 / 100) / 12)
        \<and> etf_values_medium R ! 599 =
            (etf_values_medium R ! 598 + (30 + 70 + 100)) * (1 + (7 / 100) / 12)"
proof -
  obtain sn where h: "simulate_payoff keep_order (debts \<lparr> debts = [zero_interest_loan] \<rparr>)
                        70 AVALANCHE 600 = Inr (sn, 0, 6)"
    using zero_interest_balanced_payoff by auto
  from freed_up_cash_redirected[where sp = "simulate_payoff keep_order", OF h,
         of 30 "4 / 100" "7 / 100" "10 / 100" 0]
  obtain R where R: "simulate_combined_scenario (simulate_payoff keep_order)
             \<lparr> debts = [zero_interest_loan] \<rparr> 70 30 AVALANCHE (4 / 100) (7 / 100) (10 / 100)
             0 600 = Inr R"
    and all: "\<And>k. min 6 600 \<le> k \<and> k < (600::nat) \<Longrightarrow>
                 etf_values_low R ! k =
                   (prev_balance (etf_values_low R) 0 k
                      + (30 + 70 + sum_list (map minimum_payment
                           (debts \<lparr> debts = [zero_interest_loan] \<rparr>))))
                   * (1 + (4 / 100) / 12)
               \<and> etf_values_medium R ! k =
                   (prev_balance (etf_values_medium R) 0 k
                      + (30 + 70 + sum_list (map minimum_payment
                           (debts \<lparr> debts = [zero_interest_loan] \<rparr>))))
                   * (1 + (7 / 100) / 12)"
    by blast
  from all[of 6] all[of 599] R show ?thesis
    by (auto simp: prev_balance_def zero_interest_loan_def)
qed

text \<open>
  C10. Whenever the payoff simulator returns, each of the three trajectories has
  exactly \<open>max_months\<close> entries, whatever the payoff month; the final values are the
  last entries (the initial balance for an empty horizon) and the total contributions
  add the base contribution over the payoff months to the increased one over the
  remaining months, the two month counts adding up to \<open>max_months\<close>. Nothing is assumed
  about the base contribution, which may be zero.
\<close>

theorem trajectories_cover_horizon:
  assumes "sp (debts P) extra strat M = Inr (sn, ti, m)"
  shows "\<exists>R. simulate_combined_scenario sp P extra etf strat rl rm rh init M = Inr R
            \<and> length (etf_values_low R) = M
            \<and> length (etf_values_medium R) = M
            \<and> length (etf_values_high R) = M
            \<and> final_etf_value_low R = (if M = 0 then init else etf_values_low R ! (M - 1))
            \<and> final_etf_value_medium R = (if M = 0 then init else etf_values_medium R ! (M - 1))
            \<and> final_etf_value_high R = (if M = 0 then init else etf_values_high R ! (M - 1))
            \<and> res_total_etf_contributions R =
                etf * real (min m M)
                + (etf + extra + total_minimum_payments P) * real (M - min m M)
            \<and> min m M + (M - min m M) = M"
proof -
  have last: "last_or xs init = (if M = 0 then init else xs ! (M - 1))"
    if "length xs = M" for xs
    using that by (auto simp: last_or_def last_conv_nth)
  from scs_returns[where sp = sp, OF assms] show ?thesis
    by (simp add: combined_result_of_def Let_def last)
qed

theorem trajectories_cover_horizon_witness:
  "\<exists>R. simulate_combined_scenario (simulate_payoff keep_order)
             \<lparr> debts = [zero_interest_loan] \<rparr> 100 0 AVALANCHE (4 / 100) (7 / 100) (10 / 100)
             0 600 = Inr R
        \<and> length (etf_values_low R) = 600
        \<and> length (etf_values_medium R) = 600
        \<and> length (etf_values_high R) = 600
        \<and> final_etf_value_medium R = etf_values_medium R ! 599
        \<and> res_total_etf_contributions R = 0 * 5 + 200 * 595"
proof -
  obtain sn where h: "simulate_payoff keep_order (debts \<lparr> debts = [zero_interest_loan] \<rparr>)
                        100 AVALANCHE 600 = Inr (sn, 0, 5)"
    using zero_interest_debt_only_payoff by auto
  from trajectories_cover_horizon[where sp = "simulate_payoff keep_order", OF h,
         of 0 "4 / 100" "7 / 100" "10 / 100" 0]
  show ?thesis
    by (auto simp: zero_interest_minimums)
qed

section \<open>Claims about the amortization schedule\<close>

lemma amortization_loop_append:
  "amortization_loop n mo b r p s = s @ amortization_loop n mo b r p []"
proof (induction n arbitrary: mo b s)
  case 0 show ?case by simp
next
  case (Suc n)
  show ?case
  proof (cases "b \<le> 0 \<or> min (p - b * r) b \<le> 0")
    case True then show ?thesis by (auto simp: Let_def)
  next
    case False
    let ?e = "(mo, min p (b * r + (b - min (p - b * r) b) + min (p - b * r) b), b * r,
               min (p - b * r) b, max 0 (b - min (p - b * r) b))"
    have "amortization_loop (Suc n) mo b r p s
            = amortization_loop n (mo + 1) (b - min (p - b * r) b) r p (s @ [?e])"
      using False by (simp add: Let_def)
    also have "\<dots> = (s @ [?e]) @ amortization_loop n (mo + 1) (b - min (p - b * r) b) r p []"
      by (rule Suc.IH)
    also have "\<dots> = s @ amortization_loop n (mo + 1) (b - min (p - b * r) b) r p [?e]"
      using Suc.IH[of "mo + 1" "b - min (p - b * r) b" "[?e]"] by simp
    also have "\<dots> = s @ amortization_loop (Suc n) mo b r p []"
      using False by (simp add: Let_def)
    finally show ?thesis .
  qed
qed

lemma amortization_loop_step:
  assumes "0 < b" "0 < min (p - b * r) b"
  shows "amortization_loop (Suc n) mo b r p [] =
           (mo, min p (b * r + b), b * r, min (p - b * r) b, b - min (p - b * r) b)
           # amortization_loop n (mo + 1) (b - min (p - b * r) b) r p []"
proof -
  define pp where "pp = min (p - b * r) b"
  have pp: "0 < pp" "pp \<le> b" using assms(2) by (simp_all add: pp_def)
  have "amortization_loop (Suc n) mo b r p [] =
          amortization_loop n (mo + 1) (b - pp) r p
            [(mo, min p (b * r + (b - pp) + pp), b * r, pp, max 0 (b - pp))]"
    using assms(1) pp(1) by (simp add: Let_def pp_def[symmetric])
  also have "\<dots> = [(mo, min p (b * r + (b - pp) + pp), b * r, pp, max 0 (b - pp))]
                     @ amortization_loop n (mo + 1) (b - pp) r p []"
    by (rule amortization_loop_append)
  also have "max 0 (b - pp) = b - pp" using pp(2) by simp
  also have "b * r + (b - pp) + pp = b * r + b" by simp
  finally show ?thesis by (simp add: pp_def)
qed

lemma amortization_loop_stop:
  assumes "\<not> (0 < b \<and> 0 < min (p - b * r) b)"
  shows "amortization_loop n mo b r p [] = []"
  using assms by (cases n) (auto simp: Let_def)

lemma amortization_entries:
  "i < length (amortization_loop n mo b r p []) \<Longrightarrow> entry_ok b r (amortization_loop n mo b r p []) i"
proof (induction n arbitrary: mo b i)
  case 0 then show ?case by simp
next
  case (Suc n)
  show ?case
  proof (cases "0 < b \<and> 0 < min (p - b * r) b")
    case False
    from amortization_loop_stop[OF this] Suc.prems show ?thesis by simp
  next
    case True
    define b1 where "b1 = b - min (p - b * r) b"
    define L' where "L' = amortization_loop n (mo + 1) b1 r p []"
    define e where "e = (mo, min p (b * r + b), b * r, min (p - b * r) b, b1)"
    have L: "amortization_loop (Suc n) mo b r p [] = e # L'"
      unfolding b1_def L'_def e_def
      by (rule amortization_loop_step) (use True in simp_all)
    show ?thesis
    proof (cases i)
      case 0
      have "min p (b * r + b) = b * r + min (p - b * r) b" by (simp add: min_def)
      then show ?thesis using 0 L by (simp add: entry_ok_def e_def balance_before_def b1_def)
    next
      case (Suc j)
      with Suc.prems L have j: "j < length L'" by simp
      have bb: "balance_before b (e # L') (Suc j) = balance_before b1 L' j"
        by (cases j) (simp_all add: balance_before_def e_def)
      from Suc.IH[of j "mo + 1" b1] j have "entry_ok b1 r L' j" by (simp add: L'_def)
      then show ?thesis using Suc L bb by (simp add: entry_ok_def)
    qed
  qed
qed


lemma example_schedule:
  "calculate_amortization_schedule 1000 (12 / 100) 400 600 =
     [(1, 400, 10, 390, 610),
      (2, 400, 61 / 10, 3939 / 10, 2161 / 10),
      (3, 218261 / 1000, 2161 / 1000, 2161 / 10, 0)]"
  by code_simp


text \<open>
  C8. No remaining-balance field of any entry of the schedule is negative. The bounds
  principal \<open>\<ge> 0\<close> and rate \<open>\<ge> 0\<close> of the claim are not needed.
\<close>

theorem remaining_balance_nonnegative:
  "\<forall>e \<in> set (calculate_amortization_schedule principal0 annual_rate monthly_payment max_months).
      0 \<le> snd (snd (snd (snd e)))"
proof
  fix e assume "e \<in> set (calculate_amortization_schedule principal0 annual_rate monthly_payment max_months)"
  then obtain i where i: "i < length (calculate_amortization_schedule principal0 annual_rate monthly_payment max_months)"
    and e: "calculate_amortization_schedule principal0 annual_rate monthly_payment max_months ! i = e"
    by (auto simp: in_set_conv_nth)
  from amortization_entries[of i max_months 1 principal0 "annual_rate / 12" monthly_payment] i e
  show "0 \<le> snd (snd (snd (snd e)))"
    by (cases e) (simp add: calculate_amortization_schedule_def entry_ok_def)
qed

theorem remaining_balance_nonnegative_witness:
  "(2, 400, 61 / 10, 3939 / 10, 2161 / 10)
     \<in> set (calculate_amortization_schedule 1000 (12 / 100) 400 600)
   \<and> (0::real) \<le> snd (snd (snd (snd (2::nat, 400::real, 61 / 10 :: real, 3939 / 10 :: real,
                                       2161 / 10 :: real))))"
proof -
  have mem: "(2, 400, 61 / 10, 3939 / 10, 2161 / 10)
               \<in> set (calculate_amortization_schedule 1000 (12 / 100) 400 600)"
    unfolding example_schedule by simp
  from remaining_balance_nonnegative[of 1000 "12 / 100" 400 600, THEN bspec, OF mem] mem
  show ?thesis by blast
qed

section \<open>Claim about the allocation split\<close>

lemma high_interest_has_highest:
  assumes "has_high_interest_debt p t"
  shows "\<exists>h. highest_interest_debt p = Some h"
proof (cases "debts p")
  case Nil
  with assms show ?thesis by (simp add: has_high_interest_debt_def)
next
  case (Cons d ds)
  then show ?thesis by (simp add: highest_interest_debt_def)
qed

lemma allocation_split_cases:
  "case calculate_allocation_split fmt self_profile self_debts surplus of
     Inl e \<Rightarrow> False
   | Inr (debt_pct, etf_pct, reasoning) \<Rightarrow>
       0 \<le> debt_pct \<and> debt_pct \<le> 1 \<and> 0 \<le> etf_pct \<and> etf_pct \<le> 1 \<and> debt_pct + etf_pct = 1"
proof -
  consider (none) "surplus \<le> 0 \<or> \<not> has_adequate_emergency_fund self_profile"
    | (very) "0 < surplus" "has_adequate_emergency_fund self_profile"
             "has_high_interest_debt self_debts HIGH_INTEREST_THRESHOLD"
    | (high) "0 < surplus" "has_adequate_emergency_fund self_profile"
             "\<not> has_high_interest_debt self_debts HIGH_INTEREST_THRESHOLD"
             "has_high_interest_debt self_debts VERY_HIGH_INTEREST_THRESHOLD"
    | (rest) "0 < surplus" "has_adequate_emergency_fund self_profile"
             "\<not> has_high_interest_debt self_debts HIGH_INTEREST_THRESHOLD"
             "\<not> has_high_interest_debt self_debts VERY_HIGH_INTEREST_THRESHOLD"
    by fastforce
  then show ?thesis
  proof cases
    case none
    then show ?thesis by (auto simp: calculate_allocation_split_def)
  next
    case very
    from high_interest_has_highest[OF very(3)] obtain h
      where "highest_interest_debt self_debts = Some h" by blast
    with very show ?thesis by (simp add: calculate_allocation_split_def)
  next
    case high
    from high_interest_has_highest[OF high(4)] obtain h
      where "highest_interest_debt self_debts = Some h" by blast
    with high show ?thesis by (simp add: calculate_allocation_split_def Let_def)
  next
    case rest
    then show ?thesis
      by (cases "risk_tolerance self_profile")
         (simp_all add: calculate_allocation_split_def Let_def)
  qed
qed

text \<open>
  C9. \<open>calculate_allocation_split\<close> always returns (it never reads \<open>highest.name\<close> on
  \<open>None\<close>), and the pair of percentages it returns has both components in \<open>[0, 1]\<close> and
  sums to exactly 1, for every profile, portfolio and surplus, on every branch of the
  rule table.
\<close>

theorem allocation_split_sums_to_one:
  "\<exists>debt_pct etf_pct reasoning.
      calculate_allocation_split fmt self_profile self_debts surplus = Inr (debt_pct, etf_pct, reasoning)
      \<and> 0 \<le> debt_pct \<and> debt_pct \<le> 1 \<and> 0 \<le> etf_pct \<and> etf_pct \<le> 1
      \<and> debt_pct + etf_pct = 1"
  using allocation_split_cases[of fmt self_profile self_debts surplus]
  by (auto split: sum.splits)

theorem allocation_split_sums_to_one_witness:
  "\<exists>reasoning. calculate_allocation_split no_digits sample_saver
        \<lparr> debts = [low_interest_loan] \<rparr> 1000 = Inr (70 / 100, 30 / 100, reasoning)
     \<and> (0::real) \<le> 70 / 100 \<and> (70 / 100 :: real) \<le> 1 \<and> (70 / 100 :: real) + 30 / 100 = 1"
proof -
  have "\<exists>reasoning. calculate_allocation_split no_digits sample_saver
          \<lparr> debts = [low_interest_loan] \<rparr> 1000 = Inr (70 / 100, 30 / 100, reasoning)"
    by (simp add: calculate_allocation_split_def sample_saver_def low_interest_loan_def
          has_adequate_emergency_fund_def emergency_fund_target_def
          essential_monthly_expenses_def has_high_interest_debt_def
          HIGH_INTEREST_THRESHOLD_def VERY_HIGH_INTEREST_THRESHOLD_def
          MODERATE_INTEREST_THRESHOLD_def Let_def)
  with allocation_split_sums_to_one[of no_digits sample_saver
         "\<lparr> debts = [low_interest_loan] \<rparr>" 1000]
  show ?thesis by auto
qed

section \<open>A debt paid with minimum payments only\<close>

text \<open>
  A single debt at zero interest that stays well above the tolerance pays
  minimum plus extra each month; \<open>n\<close> months of the simulator are \<open>n\<close> such payments.
\<close>

lemma steady_step:
  assumes "annual_interest_rate d = 0" "0 < minimum_payment d" "0 \<le> e"
    "minimum_payment d + e + 1 / 100 < current_balance d"
  shows "payoff_loop (Suc n) hy e AVALANCHE [d] snaps ti months =
           payoff_loop n hy e AVALANCHE
             [d\<lparr> current_balance := current_balance d - minimum_payment d - e \<rparr>]
             (snaps @ [\<lparr> snap_month = months + 1,
                         snap_entries =
                           [\<lparr> entry_debt = name d, entry_payment = minimum_payment d + e,
                              entry_interest = 0, entry_principal = minimum_payment d + e,
                              entry_remaining = current_balance d - minimum_payment d - e \<rparr>],
                         total_payment = minimum_payment d + e \<rparr>])
             ti (months + 1)"
proof -
  have op: "is_open d" using assms by (simp add: is_open_def tolerance_def)
  have i0: "interest_this_month d = 0"
    using assms(1) by (simp add: interest_this_month_def monthly_interest_rate_def)
  have mp: "minimum_principal d = minimum_payment d"
    using assms i0 by (simp add: minimum_principal_def)
  have bam: "balance_after_minimum d = current_balance d - minimum_payment d"
    by (simp add: balance_after_minimum_def mp)
  have pr: "prioritize_debts hy [d] AVALANCHE = [d]"
    using assms by (simp add: prioritize_debts_def sort_by_def)
  have m0: "min (current_balance d - minimum_payment d) e = e" using assms by simp
  show ?thesis
    using op by (simp add: Let_def pr m0 extra_for_def debt_entry_def pay_debt_def i0 mp bam)
qed

lemma steady_run:
  assumes "annual_interest_rate d = 0" "0 < minimum_payment d" "0 \<le> e"
    "real n * (minimum_payment d + e) + 1 / 100 < current_balance d"
  shows "snd (payoff_loop n hy e AVALANCHE [d] snaps ti months) = (ti, months + n)
       \<and> (0 < n \<longrightarrow> outstanding_at_horizon (fst (payoff_loop n hy e AVALANCHE [d] snaps ti months))
                      = current_balance d - real n * (minimum_payment d + e))"
  using assms(1,2,4)
proof (induction n arbitrary: d snaps months)
  case 0
  then show ?case by simp
next
  case (Suc n)
  let ?d = "d\<lparr> current_balance := current_balance d - minimum_payment d - e \<rparr>"
  let ?s = "snaps @ [\<lparr> snap_month = months + 1,
                         snap_entries =
                           [\<lparr> entry_debt = name d, entry_payment = minimum_payment d + e,
                              entry_interest = 0, entry_principal = minimum_payment d + e,
                              entry_remaining = current_balance d - minimum_payment d - e \<rparr>],
                         total_payment = minimum_payment d + e \<rparr>]"
  have big: "minimum_payment d + e + 1 / 100 < current_balance d"
  proof -
    have "0 \<le> real n * (minimum_payment d + e)"
      using Suc.prems(2) assms(3) by simp
    then have "minimum_payment d + e \<le> real (Suc n) * (minimum_payment d + e)"
      by (simp add: algebra_simps)
    then show ?thesis using Suc.prems(3) by linarith
  qed
  have step: "payoff_loop (Suc n) hy e AVALANCHE [d] snaps ti months =
                payoff_loop n hy e AVALANCHE [?d] ?s ti (months + 1)"
    by (rule steady_step[OF Suc.prems(1,2) assms(3) big])
  have pre: "annual_interest_rate ?d = 0" "0 < minimum_payment ?d"
    "real n * (minimum_payment ?d + e) + 1 / 100 < current_balance ?d"
    using Suc.prems by (simp_all add: algebra_simps)
  note IH = Suc.IH[OF pre, of ?s "months + 1"]
  show ?case
  proof (cases n)
    case 0
    then show ?thesis unfolding step by (simp add: outstanding_at_horizon_def)
  next
    case (Suc k)
    then show ?thesis unfolding step using IH by (simp add: algebra_simps)
  qed
qed

lemma slow_loan_run:
  assumes "0 \<le> e" "e \<le> 1 / 2"
  shows "\<exists>sn. simulate_payoff keep_order [slow_loan] e AVALANCHE 600 = Inr (sn, 0, 600)
        \<and> outstanding_at_horizon sn = 1200 - 600 * (1 + e)"
proof -
  have pre: "annual_interest_rate slow_loan = 0" "0 < minimum_payment slow_loan"
    "real 600 * (minimum_payment slow_loan + e) + 1 / 100 < current_balance slow_loan"
    using assms by (simp_all add: slow_loan_def)
  from steady_run[OF pre(1,2) assms(1) pre(3), of keep_order "[]" 0 0]
  have "snd (payoff_loop 600 keep_order e AVALANCHE [slow_loan] [] 0 0) = (0, 600)"
    and "outstanding_at_horizon (fst (payoff_loop 600 keep_order e AVALANCHE [slow_loan] [] 0 0))
           = 1200 - 600 * (1 + e)"
    by (simp_all add: slow_loan_def)
  then show ?thesis
    using assms(1)
    by (cases "payoff_loop 600 keep_order e AVALANCHE [slow_loan] [] 0 0")
       (auto simp: simulate_payoff_def)
qed

lemma slow_loan_unresolved:
  "\<exists>sn. simulate_payoff keep_order [slow_loan] 0 AVALANCHE 600 = Inr (sn, 0, 600)
        \<and> outstanding_at_horizon sn = 600"
  using slow_loan_run[of 0] by simp

section \<open>Claim about debts that never amortize\<close>

lemma uncovered_flag_is_critical: "is_critical (uncovered_interest_flag d)"
  by (simp add: is_critical_def startswith_def uncovered_interest_flag_def)

lemma uncovered_flag_raised:
  assumes "d \<in> set (debts p)" "0 < current_balance d"
    "minimum_payment d \<le> interest_this_month d"
  shows "uncovered_interest_flag d \<in> set (get_red_flags fmt u p)"
  unfolding get_red_flags_def
  apply (simp only: set_append)
  apply (intro UnI2)
  using assms apply simp
  done

lemma uncovered_invalid:
  assumes "d \<in> set (debts p)" "0 < current_balance d"
    "minimum_payment d \<le> interest_this_month d"
  shows "uncovered_interest_flag d \<in> set (snd (validate_inputs fmt u p))"
    and "\<not> fst (validate_inputs fmt u p)"
proof -
  show in_ws: "uncovered_interest_flag d \<in> set (snd (validate_inputs fmt u p))"
    using uncovered_flag_raised[OF assms, of fmt u] by (simp add: validate_inputs_def Let_def)
  then have "filter is_critical (snd (validate_inputs fmt u p)) \<noteq> []"
    using uncovered_flag_is_critical[of d] by (auto simp: filter_empty_conv)
  then show "\<not> fst (validate_inputs fmt u p)"
    by (simp add: validate_inputs_def Let_def)
qed

text \<open>
  C3, as amended. A debt with positive balance whose minimum payment does not cover
  its monthly interest is detected before any simulation: \<open>get_red_flags\<close> raises a flag
  for it that begins with \<open>CRITICAL\<close>, and \<open>create_plan\<close> treats it as a critical error
  that prevents planning. Whatever the payoff simulator, no simulation is run; the caller
  receives the output \<open>unable_output\<close>: the warnings, an empty recommended plan whose
  months-to-debt-free is \<open>None\<close>, and no scenario comparison.
\<close>

theorem unresolved_debt_prevents_planning:
  assumes "d \<in> set (debts p)" "0 < current_balance d"
    "minimum_payment d \<le> interest_this_month d"
  shows "uncovered_interest_flag d \<in> set (get_red_flags fmt u p)
       \<and> is_critical (uncovered_interest_flag d)
       \<and> uncovered_interest_flag d \<in> set (snd (validate_inputs fmt u p))
       \<and> create_plan fmt sp isaved narr u p strat use_safe custom_debt custom_etf
           = Inr (unable_output strat (snd (validate_inputs fmt u p)))"
proof -
  from uncovered_invalid[OF assms, of fmt u]
  have "create_plan fmt sp isaved narr u p strat use_safe custom_debt custom_etf
           = Inr (unable_output strat (snd (validate_inputs fmt u p)))"
    by (cases "validate_inputs fmt u p") (simp add: create_plan_def)
  with uncovered_flag_raised[OF assms, of fmt u] uncovered_flag_is_critical[of d]
    uncovered_invalid(1)[OF assms, of fmt u]
  show ?thesis by simp
qed

lemma example_warnings:
  "validate_inputs two_decimals earner \<lparr> debts = [sentinel_card, zero_interest_loan] \<rparr> =
     (False,
      [''Card: CRITICAL: Minimum payment ($5.00) does not cover monthly interest ($10.00). Debt will grow indefinitely.'',
       ''CRITICAL: Card minimum payment does not cover interest. Balance will grow indefinitely. Increase payments immediately.''])"
  by code_simp

theorem unresolved_debt_prevents_planning_witness:
  "sentinel_card \<in> set (debts \<lparr> debts = [sentinel_card, zero_interest_loan] \<rparr>)
   \<and> 0 < current_balance sentinel_card
   \<and> minimum_payment sentinel_card \<le> interest_this_month sentinel_card
   \<and> create_plan no_digits (simulate_payoff keep_order) (calculate_interest_saved keep_order)
         silent_narrator earner \<lparr> debts = [sentinel_card, zero_interest_loan] \<rparr>
         AVALANCHE False None None
       = Inr (unable_output AVALANCHE
               (snd (validate_inputs no_digits earner
                       \<lparr> debts = [sentinel_card, zero_interest_loan] \<rparr>)))"
proof -
  have h1: "sentinel_card \<in> set (debts \<lparr> debts = [sentinel_card, zero_interest_loan] \<rparr>)"
    by simp
  have h2: "0 < current_balance sentinel_card"
    by (simp add: sentinel_card_def)
  have h3: "minimum_payment sentinel_card \<le> interest_this_month sentinel_card"
    by (simp add: sentinel_card_def interest_this_month_def monthly_interest_rate_def)
  from unresolved_debt_prevents_planning[OF h1 h2 h3, of no_digits earner
         "simulate_payoff keep_order" "calculate_interest_saved keep_order" silent_narrator
         AVALANCHE False None None] h1 h2 h3
  show ?thesis by blast
qed

text \<open>
  C3 as stated fails: for the household \<open>earner\<close> with the card of the specification's
  horizon example and a second, amortizing loan, \<open>create_plan\<close> does not simulate the
  remaining debt. It returns the output for critical errors, in which all three
  scenario comparisons are absent.
\<close>

theorem unresolved_debt_advisory_counterexample:
  "create_plan two_decimals (simulate_payoff keep_order) (calculate_interest_saved keep_order)
     silent_narrator earner \<lparr> debts = [sentinel_card, zero_interest_loan] \<rparr>
     AVALANCHE True None None
   = Inr \<lparr> recommended_plan =
             empty_plan AVALANCHE
               [''Card: CRITICAL: Minimum payment ($5.00) does not cover monthly interest ($10.00). Debt will grow indefinitely.'',
                ''CRITICAL: Card minimum payment does not cover interest. Balance will grow indefinitely. Increase payments immediately.''],
           debt_only_scenario = None,
           balanced_scenario = None,
           minimum_only_scenario = None,
           executive_summary =
             ''Unable to create plan due to critical errors. Please review warnings.'',
           detailed_explanation = [],
           tradeoff_analysis = [],
           action_steps = [''Address critical errors before proceeding with planning.''],
           disclaimer = default_disclaimer \<rparr>"
  unfolding create_plan_def example_warnings
  by (simp add: unable_output_def)

section \<open>Claim about the horizon sentinel\<close>





section \<open>Claims about the scenario comparisons\<close>



lemma last_or_two_phase:
  "last_or (two_phase n1 n2 c1 c2 r b) b = bal_after n2 c2 r (bal_after n1 c1 r b)"
proof (cases "n2 = 0")
  case True
  then show ?thesis using last_or_traj[of n1 c1 r b] by (simp add: two_phase_def)
next
  case False
  then have ne: "traj n2 c2 r (bal_after n1 c1 r b) \<noteq> []"
    by (metis length_traj list.size(3))
  then show ?thesis
    using last_or_traj[of n2 c2 r "bal_after n1 c1 r b"]
    by (simp add: two_phase_def last_or_def)
qed

lemma bal_after_zero_return: "bal_after n c 0 b = b + real n * c"
  by (induction n arbitrary: b) (simp_all add: algebra_simps)


text \<open>What \<open>create_scenario_comparison\<close> returns when the payoff simulator returns.\<close>

lemma csc_returns:
  assumes "sp (debts P) extra strat 600 = Inr (sn, ti, m)"
  shows "\<exists>S. create_scenario_comparison sp P nm extra etf strat rl rm rh init desc = Inr S
           \<and> months_to_debt_free S = (if m < 600 then Some m else None)
           \<and> total_etf_contributions S =
               etf * real (min m 600)
               + (etf + extra + total_minimum_payments P) * real (600 - min m 600)
           \<and> estimated_etf_value_low S =
               bal_after (600 - min m 600) (etf + extra + total_minimum_payments P) (rl / 12)
                 (bal_after (min m 600) etf (rl / 12) init)
           \<and> estimated_etf_value_medium S =
               bal_after (600 - min m 600) (etf + extra + total_minimum_payments P) (rm / 12)
                 (bal_after (min m 600) etf (rm / 12) init)
           \<and> estimated_etf_value_high S =
               bal_after (600 - min m 600) (etf + extra + total_minimum_payments P) (rh / 12)
                 (bal_after (min m 600) etf (rh / 12) init)
           \<and> net_worth_at_end_low S = estimated_etf_value_low S
               - (if m < 600 \<and> m \<noteq> 0 then 0 else total_balance P)
           \<and> net_worth_at_end_medium S = estimated_etf_value_medium S
               - (if m < 600 \<and> m \<noteq> 0 then 0 else total_balance P)
           \<and> net_worth_at_end_high S = estimated_etf_value_high S
               - (if m < 600 \<and> m \<noteq> 0 then 0 else total_balance P)"
  using scs_returns[where sp = sp, OF assms, of etf rl rm rh init]
  by (simp add: create_scenario_comparison_def combined_result_of_def Let_def
        last_or_two_phase truthy_def)





text \<open>
  C1, on the failing input. The loan of 1200 at 0\% with minimum payment 1 is paid with
  minimum payments only: after 600 months the simulator reports the horizon sentinel
  and 600 still outstanding. The investment values are 0, so the claim's net worth is
  \<open>0 - 600\<close>; \<open>create_scenario_comparison\<close> subtracts the total balance of the caller's
  portfolio, which is still the starting balance 1200, and reports \<open>- 1200\<close>.
\<close>

theorem net_worth_subtracts_starting_balance:
  "\<exists>sn S.
      simulate_payoff keep_order [slow_loan] 0 AVALANCHE 600 = Inr (sn, 0, 600)
    \<and> outstanding_at_horizon sn = 600
    \<and> total_balance \<lparr> debts = [slow_loan] \<rparr> = 1200
    \<and> create_scenario_comparison (simulate_payoff keep_order) \<lparr> debts = [slow_loan] \<rparr>
          ''Minimum Payments Only'' 0 0 AVALANCHE 0 0 0 0 [] = Inr S
    \<and> months_to_debt_free S = None
    \<and> estimated_etf_value_low S = 0
    \<and> estimated_etf_value_medium S = 0
    \<and> estimated_etf_value_high S = 0
    \<and> net_worth_at_end_low S = - 1200
    \<and> net_worth_at_end_medium S = - 1200
    \<and> net_worth_at_end_high S = - 1200"
proof -
  obtain sn where h: "simulate_payoff keep_order (debts \<lparr> debts = [slow_loan] \<rparr>)
                        0 AVALANCHE 600 = Inr (sn, 0, 600)"
    and out: "outstanding_at_horizon sn = 600"
    using slow_loan_unresolved by auto
  have tb: "total_balance \<lparr> debts = [slow_loan] \<rparr> = 1200"
    by (simp add: total_balance_def slow_loan_def)
  from csc_returns[where sp = "simulate_payoff keep_order", OF h,
         of "''Minimum Payments Only''" 0 0 0 0 0 "[]"] h out tb
  show ?thesis
    by (auto simp: bal_after_zero_return)
qed

end
